theory Spec2Isabelle
  imports Complex_Main "HOL-Library.AList" "HOL-Library.Word"
begin

section \<open>Python values\<close>

subsection \<open>Python floats\<close>

text \<open>
  A Python float is an IEEE binary64 value: \<open>Finite m e\<close> stands for \<open>m * 2 ^ e\<close>, and the
  binary64 values among these are the ones with \<open>\<bar>m\<bar> < 2 ^ 53\<close> and \<open>- 1074 \<le> e \<le> 971\<close>; the
  others are the two infinities and NaN. Zero is not signed here: the operations below do
  not tell \<open>-0.0\<close> from \<open>0.0\<close>.
\<close>

datatype float64 = Finite int int | PosInf | NegInf | NaN

text \<open>The number of bits of a positive integer (Python's \<open>int.bit_length\<close>).\<close>

function bit_length :: "int \<Rightarrow> nat" where
  "bit_length m = (if m \<le> 0 then 0 else Suc (bit_length (m div 2)))"
  by pat_completeness auto
termination
  by (relation "measure nat") auto

declare bit_length.simps [simp del]

text \<open>
  Rounding of the exact result \<open>m * 2 ^ e\<close> of an operation to binary64, to nearest with ties
  to even: a magnitude of at most 53 bits is kept; a longer one loses its low \<open>k\<close> bits, is
  rounded up when they are more than half a unit, or exactly half with an odd quotient,
  and overflows to an infinity when it reaches \<open>2 ^ 1024\<close>. The exact difference of two
  binary64 values has \<open>e \<ge> - 1074\<close>, so nothing is lost to underflow, and \<open>e \<le> 971\<close>, so a
  magnitude of at most 53 bits does not overflow.
\<close>

definition round_binary64 :: "int \<Rightarrow> int \<Rightarrow> float64" where
  "round_binary64 m e =
     (if \<bar>m\<bar> < 2 ^ 53 then Finite m e
      else
        let k = bit_length \<bar>m\<bar> - 53;
            q = \<bar>m\<bar> div 2 ^ k;
            r = \<bar>m\<bar> mod 2 ^ k;
            q' = (if 2 * r > 2 ^ k \<or> (2 * r = 2 ^ k \<and> odd q) then q + 1 else q)
        in if int (bit_length q') + e + int k > 1024
           then (if m < 0 then NegInf else PosInf)
           else Finite (sgn m * q') (e + int k))"

text \<open>\<open>x - y\<close> on floats.\<close>

fun float_sub :: "float64 \<Rightarrow> float64 \<Rightarrow> float64" where
  "float_sub NaN y = NaN"
| "float_sub x NaN = NaN"
| "float_sub PosInf PosInf = NaN"
| "float_sub NegInf NegInf = NaN"
| "float_sub PosInf y = PosInf"
| "float_sub NegInf y = NegInf"
| "float_sub x PosInf = NegInf"
| "float_sub x NegInf = PosInf"
| "float_sub (Finite m1 e1) (Finite m2 e2) =
     (let e = min e1 e2
      in round_binary64 (m1 * 2 ^ nat (e1 - e) - m2 * 2 ^ nat (e2 - e)) e)"

text \<open>\<open>x < y\<close> on floats; \<open>x > y\<close> is \<open>float_less y x\<close>. A comparison with NaN is false.\<close>

fun float_less :: "float64 \<Rightarrow> float64 \<Rightarrow> bool" where
  "float_less NaN y = False"
| "float_less x NaN = False"
| "float_less PosInf y = False"
| "float_less x NegInf = False"
| "float_less NegInf y = True"
| "float_less x PosInf = True"
| "float_less (Finite m1 e1) (Finite m2 e2) =
     (let e = min e1 e2 in m1 * 2 ^ nat (e1 - e) < m2 * 2 ^ nat (e2 - e))"

text \<open>The real number that a finite float stands for.\<close>

definition float_value :: "int \<Rightarrow> int \<Rightarrow> real" where
  "float_value m e = (if 0 \<le> e then of_int m * 2 ^ nat e else of_int m / 2 ^ nat (- e))"

subsection \<open>JSON values\<close>

text \<open>
  The values that \<open>json.loads\<close> produces; a number with a fraction or an exponent is a
  float, which is infinite when the literal is out of range (\<open>1e400\<close>) and also for the
  literals \<open>Infinity\<close>, \<open>-Infinity\<close> and \<open>NaN\<close>, which \<open>json.loads\<close> accepts. A Python \<open>dict\<close>
  keeps its keys in insertion order, so an object is an association list; \<open>map_of\<close> is the
  lookup, \<open>AList.update\<close> is \<open>d[k] = v\<close> (replace in place, or append) and \<open>AList.delete\<close> is
  \<open>del d[k]\<close>.
\<close>

datatype json =
    JNull
  | JBool bool
  | JInt int
  | JFloat float64
  | JString string
  | JArray "json list"
  | JObject "(string \<times> json) list"

text \<open>Python's truth value of an object: what \<open>if x\<close> and \<open>not x\<close> test.\<close>

fun truthy :: "json \<Rightarrow> bool" where
  "truthy JNull = False"
| "truthy (JBool b) = b"
| "truthy (JInt i) = (i \<noteq> 0)"
| "truthy (JFloat (Finite m e)) = (m \<noteq> 0)"
| "truthy (JFloat f) = True"
| "truthy (JString s) = (s \<noteq> [])"
| "truthy (JArray xs) = (xs \<noteq> [])"
| "truthy (JObject kvs) = (kvs \<noteq> [])"

text \<open>\<open>d.get(k)\<close> gives \<open>None\<close> for a missing key; \<open>d.get(k, default)\<close> the default.\<close>

definition dict_get :: "(string \<times> json) list \<Rightarrow> string \<Rightarrow> json" where
  "dict_get d k = (case map_of d k of None \<Rightarrow> JNull | Some v \<Rightarrow> v)"

definition dict_get_default :: "(string \<times> json) list \<Rightarrow> string \<Rightarrow> json \<Rightarrow> json" where
  "dict_get_default d k dflt = (case map_of d k of None \<Rightarrow> dflt | Some v \<Rightarrow> v)"

definition startswith :: "string \<Rightarrow> string \<Rightarrow> bool" where
  "startswith s p = (take (length p) s = p)"

text \<open>The substring test \<open>sub in s\<close> on strings.\<close>

fun str_contains :: "string \<Rightarrow> string \<Rightarrow> bool" where
  "str_contains [] sub = (sub = [])"
| "str_contains (c # cs) sub = (startswith (c # cs) sub \<or> str_contains cs sub)"

text \<open>
  Keys of a dictionary that is filled at run time from arbitrary JSON values: strings,
  numbers (\<open>True == 1 == 1.0\<close> is one key) and \<open>None\<close> are hashable, lists and
  dictionaries are not. A NaN equals no key, not even another NaN: storing under it always
  adds an entry.
\<close>

datatype pykey = KStr string | KNum real | KPosInf | KNegInf | KNaN | KNone

fun key_of :: "json \<Rightarrow> pykey option" where
  "key_of JNull = Some KNone"
| "key_of (JBool b) = Some (KNum (if b then 1 else 0))"
| "key_of (JInt i) = Some (KNum (real_of_int i))"
| "key_of (JFloat (Finite m e)) = Some (KNum (float_value m e))"
| "key_of (JFloat PosInf) = Some KPosInf"
| "key_of (JFloat NegInf) = Some KNegInf"
| "key_of (JFloat NaN) = Some KNaN"
| "key_of (JString s) = Some (KStr s)"
| "key_of (JArray xs) = None"
| "key_of (JObject kvs) = None"

definition dict_set :: "pykey \<Rightarrow> json \<Rightarrow> (pykey \<times> json) list \<Rightarrow> (pykey \<times> json) list" where
  "dict_set k v d = (if k = KNaN then d @ [(k, v)] else AList.update k v d)"

datatype exn = AttributeError | TypeError | ValueError | UnicodeDecodeError

section \<open>Sessions (\<open>session_manager.py\<close>)\<close>

record Session =
  session_id :: string
  created_at :: float64
  last_accessed :: float64
  client_info :: "(pykey \<times> json) list"
  capabilities :: json
  session_context :: "(string \<times> json) list"

text \<open>
  Every call of \<open>time.time()\<close> is an argument of the function that makes it: \<open>is_expired\<close>
  and \<open>update_access_time\<close> each read the clock once. \<open>is_expired\<close> is
  \<open>time.time() - self.last_accessed > timeout\<close>, with the subtraction rounded as binary64
  rounds it and the comparison exact. The timeout is a float, as the signature declares
  it; an integer timeout \<open>n\<close>, which Python compares with a float exactly, is \<open>Finite n 0\<close>.
\<close>

definition is_expired :: "Session \<Rightarrow> float64 \<Rightarrow> float64 \<Rightarrow> bool" where
  "is_expired s timeout now = float_less timeout (float_sub now (last_accessed s))"

definition update_access_time :: "Session \<Rightarrow> float64 \<Rightarrow> Session" where
  "update_access_time s now = s\<lparr>last_accessed := now\<rparr>"

record SessionManager =
  session_timeout :: float64
  cleanup_interval :: float64
  sessions :: "(string \<times> Session) list"
  last_cleanup :: float64
  manager_created_at :: float64

subsection \<open>Identifier generation\<close>

type_synonym byte = "8 word"

definition hexdigits :: string where
  "hexdigits = ''0123456789abcdef''"

text \<open>\<open>hash_obj.hexdigest()\<close>: two lower-case hexadecimal digits for each byte of the digest.\<close>

definition hexdigest :: "byte list \<Rightarrow> string" where
  "hexdigest ds = concat (map (\<lambda>b. [hexdigits ! (unat b div 16), hexdigits ! (unat b mod 16)]) ds)"

text \<open>\<open>str.encode('utf-8')\<close> on a string of ASCII characters.\<close>

definition encode_utf8 :: "string \<Rightarrow> byte list" where
  "encode_utf8 s = map (\<lambda>c. of_nat (of_char c)) s"

definition b64url_alphabet :: string where
  "b64url_alphabet = ''ABCDEFGHIJKLMNOPQRSTUVWXYZabcdefghijklmnopqrstuvwxyz0123456789-_''"

definition b64 :: "nat \<Rightarrow> char" where
  "b64 i = b64url_alphabet ! i"

text \<open>
  \<open>base64.urlsafe_b64encode\<close>: three bytes become four characters of the URL-safe
  alphabet; a last group of one or two bytes is padded with \<open>=\<close>.
\<close>

fun urlsafe_b64encode :: "byte list \<Rightarrow> string" where
  "urlsafe_b64encode [] = []"
| "urlsafe_b64encode [a] =
     [b64 (unat a div 4), b64 (unat a mod 4 * 16), CHR ''='', CHR ''='']"
| "urlsafe_b64encode [a, b] =
     [b64 (unat a div 4), b64 (unat a mod 4 * 16 + unat b div 16),
      b64 (unat b mod 16 * 4), CHR ''='']"
| "urlsafe_b64encode (a # b # c # rest) =
     [b64 (unat a div 4), b64 (unat a mod 4 * 16 + unat b div 16),
      b64 (unat b mod 16 * 4 + unat c div 64), b64 (unat c mod 64)]
     @ urlsafe_b64encode rest"

definition rstrip :: "char \<Rightarrow> string \<Rightarrow> string" where
  "rstrip c s = rev (dropWhile (\<lambda>x. x = c) (rev s))"

text \<open>
  What a request takes from outside the program: the hash function of \<open>hashlib\<close>, the
  bytes of \<open>secrets.token_bytes(32)\<close>, and the readings of the clock, one for each place
  of the source that calls \<open>time.time()\<close>. The sweep reads the clock once for every record it
  examines (\<open>t_scan i\<close> for the \<open>i\<close>-th).
\<close>

record env =
  sha256 :: "byte list \<Rightarrow> byte list"
  random_bytes :: "byte list"
  timestamp :: "byte list"
  t_create :: float64
  t_sweep :: float64
  t_scan :: "nat \<Rightarrow> float64"
  t_check :: float64
  t_touch :: float64
  t_after :: float64

definition generate_session_id :: "env \<Rightarrow> string" where
  "generate_session_id e =
     (let hash_obj = sha256 e (random_bytes e @ timestamp e);
          session_id = hexdigest hash_obj;
          session_id_bytes = encode_utf8 session_id
      in rstrip (CHR ''='') (urlsafe_b64encode session_id_bytes))"

subsection \<open>The store\<close>

fun expired_sessions :: "float64 \<Rightarrow> (nat \<Rightarrow> float64) \<Rightarrow> nat \<Rightarrow> (string \<times> Session) list \<Rightarrow> string list" where
  "expired_sessions timeout clock i [] = []"
| "expired_sessions timeout clock i ((k, s) # rest) =
     (if is_expired s timeout (clock i) then [k] else [])
     @ expired_sessions timeout clock (Suc i) rest"

definition cleanup_expired_sessions :: "env \<Rightarrow> SessionManager \<Rightarrow> SessionManager" where
  "cleanup_expired_sessions e sm =
     (let current_time = t_sweep e in
      if float_less (float_sub current_time (last_cleanup sm)) (cleanup_interval sm) then sm
      else sm\<lparr>sessions := fold AList.delete
                  (expired_sessions (session_timeout sm) (t_scan e) 0 (sessions sm)) (sessions sm),
              last_cleanup := current_time\<rparr>)"

text \<open>
  \<open>create_session\<close> returns the new record and the store that holds it.
  \<open>client_info or {}\<close> and \<open>capabilities or {}\<close> turn a missing argument into
  the empty dictionary.
\<close>

definition create_session ::
  "env \<Rightarrow> (pykey \<times> json) list option \<Rightarrow> json option \<Rightarrow> SessionManager \<Rightarrow> Session \<times> SessionManager" where
  "create_session e info caps sm =
     (let sid = generate_session_id e;
          current_time = t_create e;
          session = \<lparr>session_id = sid, created_at = current_time, last_accessed = current_time,
                     client_info = (case info of None \<Rightarrow> [] | Some ci \<Rightarrow> ci),
                     capabilities = (case caps of None \<Rightarrow> JObject []
                                     | Some c \<Rightarrow> if truthy c then c else JObject []),
                     session_context = []\<rparr>;
          sm1 = sm\<lparr>sessions := AList.update sid session (sessions sm)\<rparr>
      in (session, cleanup_expired_sessions e sm1))"

text \<open>
  \<open>get_session\<close>: the first clock reading is the one \<open>is_expired\<close> takes, the second the
  one \<open>update_access_time\<close> takes. The result is the record as it stands after the call
  (\<open>None\<close> for Python's \<open>None\<close>) and the store.
\<close>

definition get_session ::
  "SessionManager \<Rightarrow> string \<Rightarrow> float64 \<Rightarrow> float64 \<Rightarrow> Session option \<times> SessionManager" where
  "get_session sm sid now_check now_touch =
     (if sid = [] then (None, sm)
      else case map_of (sessions sm) sid of
        None \<Rightarrow> (None, sm)
      | Some session \<Rightarrow>
          if is_expired session (session_timeout sm) now_check
          then (None, sm\<lparr>sessions := AList.delete sid (sessions sm)\<rparr>)
          else let session' = update_access_time session now_touch
               in (Some session', sm\<lparr>sessions := AList.update sid session' (sessions sm)\<rparr>))"

definition remove_session :: "SessionManager \<Rightarrow> string \<Rightarrow> bool \<times> SessionManager" where
  "remove_session sm sid =
     (if sid \<in> fst ` set (sessions sm)
      then (True, sm\<lparr>sessions := AList.delete sid (sessions sm)\<rparr>)
      else (False, sm))"

definition get_session_count :: "SessionManager \<Rightarrow> nat" where
  "get_session_count sm = length (sessions sm)"

section \<open>The HTTP transport (\<open>http_transport.py\<close>)\<close>

subsection \<open>Requests, responses and the transport's state\<close>

text \<open>
  The body of a request as \<open>json.loads\<close> sees it: empty, rejected with the message of the
  \<open>JSONDecodeError\<close>, rejected with another exception, or a value.
\<close>

datatype payload = NoBody | NotJSON string | Undecodable | JSON json

text \<open>
  Header names are compared as Starlette does, without regard to case: the list holds them
  in the spelling the source uses. \<open>client\<close> is \<open>request.client.host\<close>. \<open>mcp_session\<close> is
  \<open>request.state.mcp_session\<close>: session objects are shared by reference between the store
  and the request, and a reference is the key under which the store holds the object.
\<close>

record Request =
  http_method :: string
  url_path :: string
  headers :: "(string \<times> string) list"
  client :: "string option"
  body :: payload
  mcp_session :: "string option"

datatype content = JSONContent json | NoContent

record Response =
  status_code :: nat
  content :: content
  response_headers :: "(string \<times> string) list"

definition JSONResponse :: "nat \<Rightarrow> json \<Rightarrow> Response" where
  "JSONResponse status c = \<lparr>status_code = status, content = JSONContent c, response_headers = []\<rparr>"

text \<open>
  \<open>message_queues\<close> maps a session id to its unbounded FIFO queue; \<open>root_log_level\<close> is the
  level of the root logger, which \<open>logging/setLevel\<close> changes.
\<close>

record HTTPTransport =
  session_manager :: SessionManager
  message_queues :: "(string \<times> json list) list"
  root_log_level :: nat

text \<open>
  The collaborators outside the repository: Python's \<open>str()\<close> on a JSON value (used by the
  f-strings), and the tool registry of the FastMCP server. \<open>tool_registry\<close> is the
  dictionary of registered tools, or the text of the exception raised while reading it;
  \<open>call_tool\<close> gives the tool's result, or the text \<open>str(e)\<close> of the exception it raised.
  \<open>encodes\<close> says whether the text of a value encodes as UTF-8, which a string with a lone
  surrogate does not; the strings of this model do not show it.
\<close>

record tool_obj =
  tool_name :: string
  tool_description :: "string option"
  tool_parameters :: json

datatype tool_result = ToolResult "string list" | PlainResult string

record runtime =
  py_str :: "json \<Rightarrow> string"
  tool_registry :: "string + (string \<times> tool_obj) list"
  has_tool :: "json \<Rightarrow> exn + bool"
  call_tool :: "json \<Rightarrow> json \<Rightarrow> string + tool_result"
  encodes :: "json \<Rightarrow> bool"

text \<open>
  \<open>JSONResponse(content=...)\<close> renders its content at once, with
  \<open>json.dumps(content, allow_nan=False, ...).encode("utf-8")\<close>: an infinite or NaN float
  anywhere in the content raises \<open>ValueError\<close>, and so does text that does not encode.
\<close>

fun finite_json :: "json \<Rightarrow> bool" where
  "finite_json (JFloat (Finite m e)) = True"
| "finite_json (JFloat f) = False"
| "finite_json (JArray xs) = list_all finite_json xs"
| "finite_json (JObject kvs) = list_all (\<lambda>kv. finite_json (snd kv)) kvs"
| "finite_json v = True"

definition renders :: "runtime \<Rightarrow> json \<Rightarrow> bool" where
  "renders rt c = (finite_json c \<and> encodes rt c)"

text \<open>A value inside an f-string: a string stands for itself, anything else goes through \<open>str()\<close>.\<close>

definition fmt :: "runtime \<Rightarrow> json \<Rightarrow> string" where
  "fmt rt v = (case v of JString s \<Rightarrow> s | _ \<Rightarrow> py_str rt v)"

text \<open>The reply envelopes that the source writes as dictionary literals.\<close>

definition error_body :: "int \<Rightarrow> string \<Rightarrow> json" where
  "error_body code msg = JObject [(''code'', JInt code), (''message'', JString msg)]"

definition error_reply :: "int \<Rightarrow> string \<Rightarrow> json" where
  "error_reply code msg = JObject [(''jsonrpc'', JString ''2.0''), (''error'', error_body code msg)]"

definition error_reply_id :: "json \<Rightarrow> int \<Rightarrow> string \<Rightarrow> json" where
  "error_reply_id rid code msg =
     JObject [(''jsonrpc'', JString ''2.0''), (''id'', rid), (''error'', error_body code msg)]"

definition result_reply :: "json \<Rightarrow> json \<Rightarrow> json" where
  "result_reply rid res = JObject [(''jsonrpc'', JString ''2.0''), (''id'', rid), (''result'', res)]"

subsection \<open>Envelope validation\<close>

definition validate_jsonrpc_request :: "json \<Rightarrow> json option" where
  "validate_jsonrpc_request json_data =
     (case json_data of
        JObject d \<Rightarrow>
          if dict_get d ''jsonrpc'' \<noteq> JString ''2.0''
          then Some (error_reply (- 32600)
                       (''Invalid Request: jsonrpc must be '' @ [CHR 0x27] @ ''2.0'' @ [CHR 0x27]))
          else
            (case dict_get d ''method'' of
               JString method \<Rightarrow>
                 if method = []
                 then Some (error_reply (- 32600)
                              ''Invalid Request: method is required and must be a string'')
                 else if \<not> startswith method ''notifications/'' \<and> map_of d ''id'' = None
                 then Some (error_reply (- 32600)
                              ''Invalid Request: id is required for non-notification requests'')
                 else
                   (case dict_get d ''params'' of
                      JNull \<Rightarrow> None
                    | JObject ps \<Rightarrow> None
                    | JArray xs \<Rightarrow> None
                    | _ \<Rightarrow> Some (error_reply_id (dict_get d ''id'') (- 32600)
                                   ''Invalid Request: params must be an object or array''))
             | _ \<Rightarrow> Some (error_reply (- 32600)
                            ''Invalid Request: method is required and must be a string''))
      | _ \<Rightarrow> Some (error_reply (- 32600) ''Invalid Request: must be a JSON object''))"

subsection \<open>Event channels\<close>

text \<open>
  \<open>put\<close> on an unbounded \<open>asyncio.Queue\<close> appends and cannot fail, and the source catches
  every exception of the call: \<open>_send_sse_message\<close> always returns.
\<close>

definition send_sse_message :: "HTTPTransport \<Rightarrow> string \<Rightarrow> json \<Rightarrow> HTTPTransport" where
  "send_sse_message tr sid message =
     (case map_of (message_queues tr) sid of
        None \<Rightarrow> tr
      | Some q \<Rightarrow> tr\<lparr>message_queues := AList.update sid (q @ [message]) (message_queues tr)\<rparr>)"

definition cleanup_session_queue :: "HTTPTransport \<Rightarrow> string \<Rightarrow> HTTPTransport" where
  "cleanup_session_queue tr sid =
     (if sid \<in> fst ` set (message_queues tr)
      then tr\<lparr>message_queues := AList.delete sid (message_queues tr)\<rparr>
      else tr)"

subsection \<open>Access to a session through a reference\<close>

definition modify_session :: "string \<Rightarrow> (Session \<Rightarrow> Session) \<Rightarrow> HTTPTransport \<Rightarrow> HTTPTransport" where
  "modify_session ref f tr =
     tr\<lparr>session_manager :=
          (session_manager tr)\<lparr>sessions := AList.map_entry ref f (sessions (session_manager tr))\<rparr>\<rparr>"

text \<open>
  \<open>session.session_id\<close> read through a reference. An object that has left the store was
  created by \<open>create_session\<close>, under its own id.
\<close>

definition bound_session_id :: "HTTPTransport \<Rightarrow> string \<Rightarrow> string" where
  "bound_session_id tr ref =
     (case map_of (sessions (session_manager tr)) ref of Some s \<Rightarrow> session_id s | None \<Rightarrow> ref)"

text \<open>
  \<open>dict.update(other)\<close> with an arbitrary JSON value: a dictionary is merged; a list (or a
  string, character by character) is read as a sequence of pairs, each a two-element list,
  a two-character string or a dictionary with two keys; the pairs before a faulty element
  stay merged when the call raises. Anything else is not iterable.
\<close>

fun update_pair :: "json \<Rightarrow> exn + (pykey \<times> json)" where
  "update_pair (JArray [k, v]) = (case key_of k of None \<Rightarrow> Inl TypeError | Some k' \<Rightarrow> Inr (k', v))"
| "update_pair (JArray xs) = Inl ValueError"
| "update_pair (JString [a, b]) = Inr (KStr [a], JString [b])"
| "update_pair (JString s) = Inl ValueError"
| "update_pair (JObject [(k1, v1), (k2, v2)]) = Inr (KStr k1, JString k2)"
| "update_pair (JObject kvs) = Inl ValueError"
| "update_pair x = Inl TypeError"

fun update_from_pairs :: "(pykey \<times> json) list \<Rightarrow> json list \<Rightarrow> exn option \<times> (pykey \<times> json) list" where
  "update_from_pairs d [] = (None, d)"
| "update_from_pairs d (x # xs) =
     (case update_pair x of
        Inl e \<Rightarrow> (Some e, d)
      | Inr (k, v) \<Rightarrow> update_from_pairs (dict_set k v d) xs)"

definition dict_update :: "(pykey \<times> json) list \<Rightarrow> json \<Rightarrow> exn option \<times> (pykey \<times> json) list" where
  "dict_update d other =
     (case other of
        JObject kvs \<Rightarrow> (None, fold (\<lambda>(k, v). AList.update (KStr k) v) kvs d)
      | JArray xs \<Rightarrow> update_from_pairs d xs
      | JString s \<Rightarrow> update_from_pairs d (map (\<lambda>c. JString [c]) s)
      | _ \<Rightarrow> (Some TypeError, d))"

subsection \<open>Method handlers\<close>

text \<open>
  A handler returns its reply, or the exception it raised, together with the state it
  leaves: what it changed before raising stays changed. \<open>params.get\<close> raises
  \<open>AttributeError\<close> when \<open>params\<close> is not a dictionary. In \<open>_handle_initialize\<close> the
  exception of \<open>session.client_info.update\<close> depends on its argument only, so it is read off
  the update of an empty dictionary. No operation here raises \<open>HTTPException\<close>, which
  the endpoints pass on.
\<close>

definition server_capabilities :: "(string \<times> json) list" where
  "server_capabilities =
     [(''tools'', JObject [(''listChanged'', JBool False)]),
      (''resources'', JObject []),
      (''prompts'', JObject []),
      (''logging'', JObject [(''supportedLevels'',
          JArray [JString ''debug'', JString ''info'', JString ''warning'', JString ''error'',
                  JString ''critical''])])]"

definition initialize_result :: "json \<Rightarrow> (string \<times> json) list \<Rightarrow> json" where
  "initialize_result request_id caps =
     result_reply request_id
       (JObject [(''protocolVersion'', JString ''2025-03-26''),
                 (''capabilities'', JObject caps),
                 (''serverInfo'', JObject [(''name'', JString ''AMD SMI MCP Server''),
                                           (''version'', JString ''1.0.0'')])])"

definition handle_initialize ::
  "json \<Rightarrow> json \<Rightarrow> string option \<Rightarrow> HTTPTransport \<Rightarrow> (exn + json) \<times> HTTPTransport" where
  "handle_initialize params request_id session tr =
     (case params of
        JObject p \<Rightarrow>
          let client_info = dict_get_default p ''clientInfo'' (JObject []);
              client_capabilities = dict_get_default p ''capabilities'' (JObject []);
              merged = (case session of
                          None \<Rightarrow> (None, tr)
                        | Some ref \<Rightarrow>
                            (fst (dict_update [] client_info),
                             modify_session ref
                               (\<lambda>s. s\<lparr>client_info := snd (dict_update (Session.client_info s) client_info)\<rparr>)
                               tr))
          in (case fst merged of
                Some e \<Rightarrow> (Inl e, snd merged)
              | None \<Rightarrow>
                  let tr' = (case session of
                               None \<Rightarrow> tr
                             | Some ref \<Rightarrow>
                                 modify_session ref (\<lambda>s. s\<lparr>capabilities := client_capabilities\<rparr>)
                                   (snd merged))
                  in (case client_capabilities of
                        JObject caps \<Rightarrow>
                          let caps1 = (if truthy (dict_get caps ''sampling'')
                                       then AList.update ''sampling'' (JObject []) server_capabilities
                                       else server_capabilities);
                              caps2 = (if truthy (dict_get caps ''experimental'')
                                       then AList.update ''experimental''
                                              (JObject [(''progress'', JBool True)]) caps1
                                       else caps1)
                          in (case client_info of
                                JObject ci \<Rightarrow> (Inr (initialize_result request_id caps2), tr')
                              | _ \<Rightarrow> (Inl AttributeError, tr'))
                      | _ \<Rightarrow> (Inl AttributeError, tr')))
      | _ \<Rightarrow> (Inl AttributeError, tr))"

definition tool_def :: "string \<times> tool_obj \<Rightarrow> json" where
  "tool_def entry =
     JObject [(''name'', JString (tool_name (snd entry))),
              (''description'',
                 JString (case tool_description (snd entry) of
                            None \<Rightarrow> ''Execute '' @ fst entry
                          | Some descr \<Rightarrow> if descr = [] then ''Execute '' @ fst entry else descr)),
              (''inputSchema'',
                 (if truthy (tool_parameters (snd entry)) then tool_parameters (snd entry)
                  else JObject [(''type'', JString ''object''), (''properties'', JObject []),
                                (''required'', JArray [])]))]"

definition handle_tools_list :: "runtime \<Rightarrow> json \<Rightarrow> json \<Rightarrow> json" where
  "handle_tools_list rt params request_id =
     (case tool_registry rt of
        Inr fastmcp_tools \<Rightarrow>
          result_reply request_id (JObject [(''tools'', JArray (map tool_def fastmcp_tools))])
      | Inl e \<Rightarrow> error_reply_id request_id (- 32603) (''Internal server error: '' @ e))"

definition progress_notification :: "string \<Rightarrow> (string \<times> json) list \<Rightarrow> json" where
  "progress_notification token val =
     JObject [(''jsonrpc'', JString ''2.0''),
              (''method'', JString ''notifications/progress''),
              (''params'', JObject [(''progressToken'', JString token), (''value'', JObject val)])]"

definition content_text :: "tool_result \<Rightarrow> string" where
  "content_text result =
     (case result of
        ToolResult items \<Rightarrow> (case items of [] \<Rightarrow> [] | x # xs \<Rightarrow> foldl (\<lambda>acc y. acc @ [CHR 0x0A] @ y) x xs)
      | PlainResult text \<Rightarrow> text)"

definition handle_tools_call ::
  "runtime \<Rightarrow> json \<Rightarrow> json \<Rightarrow> string option \<Rightarrow> HTTPTransport \<Rightarrow> (exn + json) \<times> HTTPTransport" where
  "handle_tools_call rt params request_id session tr =
     (case params of
        JObject p \<Rightarrow>
          let tool_name = dict_get p ''name'';
              tool_args = dict_get_default p ''arguments'' (JObject [])
          in if \<not> truthy tool_name
             then (Inr (error_reply_id request_id (- 32602) ''Tool name is required''), tr)
             else
               (case has_tool rt tool_name of
                  Inl e \<Rightarrow> (Inl e, tr)
                | Inr False \<Rightarrow>
                    (Inr (error_reply_id request_id (- 32601)
                            (''Tool '' @ [CHR 0x27] @ fmt rt tool_name @ [CHR 0x27] @ '' not found'')),
                     tr)
                | Inr True \<Rightarrow>
                    let token = ''tool_'' @ fmt rt request_id;
                        tr1 = (case session of
                                 None \<Rightarrow> tr
                               | Some ref \<Rightarrow>
                                   send_sse_message tr (bound_session_id tr ref)
                                     (progress_notification token
                                        [(''kind'', JString ''begin''),
                                         (''title'', JString (''Executing '' @ fmt rt tool_name)),
                                         (''message'', JString ''Starting tool execution...'')]))
                    in (case call_tool rt tool_name tool_args of
                          Inr result \<Rightarrow>
                            (Inr (result_reply request_id
                                    (JObject [(''content'',
                                       JArray [JObject [(''type'', JString ''text''),
                                                        (''text'', JString (content_text result))]])])),
                             (case session of
                                None \<Rightarrow> tr1
                              | Some ref \<Rightarrow>
                                  send_sse_message tr1 (bound_session_id tr1 ref)
                                    (progress_notification token
                                       [(''kind'', JString ''end''),
                                        (''message'', JString ''Tool execution completed'')])))
                        | Inl e \<Rightarrow>
                            (Inr (error_reply_id request_id (- 32603) (''Tool execution failed: '' @ e)),
                             (case session of
                                None \<Rightarrow> tr1
                              | Some ref \<Rightarrow>
                                  send_sse_message tr1 (bound_session_id tr1 ref)
                                    (progress_notification token
                                       [(''kind'', JString ''end''),
                                        (''message'', JString (''Tool execution failed: '' @ e))])))))
      | _ \<Rightarrow> (Inl AttributeError, tr))"

definition handle_resources_list :: "json \<Rightarrow> json \<Rightarrow> json" where
  "handle_resources_list params request_id =
     result_reply request_id (JObject [(''resources'', JArray [])])"

definition handle_resources_read :: "json \<Rightarrow> json \<Rightarrow> json" where
  "handle_resources_read params request_id =
     error_reply_id request_id (- 32601) ''Resources not implemented''"

definition handle_prompts_list :: "json \<Rightarrow> json \<Rightarrow> json" where
  "handle_prompts_list params request_id =
     result_reply request_id (JObject [(''prompts'', JArray [])])"

definition handle_prompts_get :: "json \<Rightarrow> json \<Rightarrow> json" where
  "handle_prompts_get params request_id =
     error_reply_id request_id (- 32601) ''Prompts not implemented''"

text \<open>\<open>getattr(logging, level.upper())\<close> for the five accepted names.\<close>

definition numeric_level :: "string \<Rightarrow> nat" where
  "numeric_level level =
     (if level = ''debug'' then 10 else if level = ''info'' then 20
      else if level = ''warning'' then 30 else if level = ''error'' then 40 else 50)"

definition handle_logging_set_level ::
  "runtime \<Rightarrow> json \<Rightarrow> json \<Rightarrow> HTTPTransport \<Rightarrow> (exn + json) \<times> HTTPTransport" where
  "handle_logging_set_level rt params request_id tr =
     (case params of
        JObject p \<Rightarrow>
          let level = dict_get p ''level''
          in if level \<notin> set (map JString [''debug'', ''info'', ''warning'', ''error'', ''critical''])
             then (Inr (error_reply_id request_id (- 32602)
                          (''Invalid logging level: '' @ fmt rt level)), tr)
             else (case level of
                     JString name \<Rightarrow>
                       (Inr (result_reply request_id (JObject [])),
                        tr\<lparr>root_log_level := numeric_level name\<rparr>)
                   | _ \<Rightarrow> (Inl AttributeError, tr))
      | _ \<Rightarrow> (Inl AttributeError, tr))"

subsection \<open>The dispatcher\<close>

text \<open>The reply is \<open>None\<close> for Python's \<open>None\<close>, the sentinel of a notification.\<close>

definition replying :: "(exn + json) \<times> HTTPTransport \<Rightarrow> (exn + json option) \<times> HTTPTransport" where
  "replying r = (case fst r of Inl e \<Rightarrow> Inl e | Inr reply \<Rightarrow> Inr (Some reply), snd r)"

definition process_mcp_request ::
  "runtime \<Rightarrow> json \<Rightarrow> string option \<Rightarrow> HTTPTransport \<Rightarrow> (exn + json option) \<times> HTTPTransport" where
  "process_mcp_request rt json_data session tr =
     (case json_data of
        JObject d \<Rightarrow>
          let method = dict_get d ''method'';
              params = dict_get_default d ''params'' (JObject []);
              request_id = dict_get d ''id''
          in if method = JString ''initialize''
             then replying (handle_initialize params request_id session tr)
             else if method = JString ''notifications/initialized''
             then (Inr None, tr)
             else if method = JString ''tools/list''
             then (Inr (Some (handle_tools_list rt params request_id)), tr)
             else if method = JString ''tools/call''
             then replying (handle_tools_call rt params request_id session tr)
             else if method = JString ''resources/list''
             then (Inr (Some (handle_resources_list params request_id)), tr)
             else if method = JString ''resources/read''
             then (Inr (Some (handle_resources_read params request_id)), tr)
             else if method = JString ''prompts/list''
             then (Inr (Some (handle_prompts_list params request_id)), tr)
             else if method = JString ''prompts/get''
             then (Inr (Some (handle_prompts_get params request_id)), tr)
             else if method = JString ''logging/setLevel''
             then replying (handle_logging_set_level rt params request_id tr)
             else (case method of
                     JString m \<Rightarrow>
                       if startswith m ''notifications/''
                       then (Inr None, tr)
                       else (Inr (Some (error_reply_id request_id (- 32601)
                                          (''Method not found: '' @ m))), tr)
                   | _ \<Rightarrow> (Inl AttributeError, tr))
      | _ \<Rightarrow> (Inl AttributeError, tr))"

subsection \<open>The POST endpoint\<close>

text \<open>
  Every exception inside the endpoint, that of a reply that fails to render included, is
  caught and answered with the fixed internal-error reply; the state stays as the
  dispatcher left it. \<open>Undecodable\<close> stands for any exception of \<open>json.loads\<close> other than
  \<open>JSONDecodeError\<close>.
\<close>

definition internal_server_error :: Response where
  "internal_server_error = JSONResponse 500 (error_reply (- 32603) ''Internal server error'')"

definition handle_mcp_request :: "runtime \<Rightarrow> Request \<Rightarrow> HTTPTransport \<Rightarrow> Response \<times> HTTPTransport" where
  "handle_mcp_request rt request tr =
     (case body request of
        NoBody \<Rightarrow> (JSONResponse 400 (error_reply (- 32700) ''Parse error: Empty request body''), tr)
      | NotJSON e \<Rightarrow> (JSONResponse 400 (error_reply (- 32700) (''Parse error: '' @ e)), tr)
      | Undecodable \<Rightarrow> (internal_server_error, tr)
      | JSON json_data \<Rightarrow>
          (case validate_jsonrpc_request json_data of
             Some validation_error \<Rightarrow>
               (if renders rt validation_error then JSONResponse 400 validation_error
                else internal_server_error, tr)
           | None \<Rightarrow>
               (case process_mcp_request rt json_data (mcp_session request) tr of
                  (Inl e, tr') \<Rightarrow> (internal_server_error, tr')
                | (Inr None, tr') \<Rightarrow>
                    (\<lparr>status_code = 204, content = NoContent, response_headers = []\<rparr>, tr')
                | (Inr (Some response_data), tr') \<Rightarrow>
                    (if renders rt response_data then JSONResponse 200 response_data
                     else internal_server_error, tr'))))"

subsection \<open>The session middleware\<close>

definition is_legacy_sse_request :: "Request \<Rightarrow> bool" where
  "is_legacy_sse_request request =
     (http_method request = ''GET'' \<and> url_path request = ''/sse''
      \<and> str_contains (case map_of (headers request) ''Accept'' of None \<Rightarrow> [] | Some a \<Rightarrow> a)
           ''text/event-stream''
      \<and> map_of (headers request) ''Mcp-Session-Id'' = None)"

definition is_initialization_request :: "Request \<Rightarrow> bool" where
  "is_initialization_request request =
     (if http_method request = ''GET'' then False
      else if map_of (headers request) ''Mcp-Session-Id'' = None then True
      else False)"

definition extract_client_info_sync :: "Request \<Rightarrow> (pykey \<times> json) list" where
  "extract_client_info_sync request =
     (case map_of (headers request) ''User-Agent'' of
        None \<Rightarrow> []
      | Some user_agent \<Rightarrow> if user_agent = [] then [] else [(KStr ''user_agent'', JString user_agent)])
     @ (case client request of
          None \<Rightarrow> []
        | Some host \<Rightarrow> [(KStr ''client_ip'', JString host)])
     @ (case map_of (headers request) ''Origin'' of
          None \<Rightarrow> []
        | Some origin \<Rightarrow> if origin = [] then [] else [(KStr ''origin'', JString origin)])"

text \<open>
  \<open>call_next\<close> is the application behind the middleware: it takes the request and the
  state and gives the response and the state it leaves.
\<close>

definition create_for_request :: "env \<Rightarrow> Request \<Rightarrow> HTTPTransport \<Rightarrow> Session \<times> HTTPTransport" where
  "create_for_request e request tr =
     (let client_info = extract_client_info_sync request;
          created = create_session e (Some client_info) None (session_manager tr)
      in (fst created, tr\<lparr>session_manager := snd created\<rparr>))"

text \<open>The branch \<open>if not session_id\<close>: the header is missing or empty.\<close>

definition without_session_id ::
  "(Request \<Rightarrow> HTTPTransport \<Rightarrow> Response \<times> HTTPTransport) \<Rightarrow> env \<Rightarrow> Request \<Rightarrow> HTTPTransport
     \<Rightarrow> Response \<times> HTTPTransport" where
  "without_session_id call_next e request tr =
     (if http_method request = ''GET'' \<and> url_path request = ''/mcp''
      then (if str_contains
                 (case map_of (headers request) ''Accept'' of None \<Rightarrow> [] | Some a \<Rightarrow> a)
                 ''text/event-stream''
            then (let created = create_for_request e request tr
                  in call_next (request\<lparr>mcp_session := Some (Session.session_id (fst created))\<rparr>)
                       (snd created))
            else (JSONResponse 405
                    (error_reply (- 32600)
                       ''Method not allowed. Use POST for MCP requests or add Accept: text/event-stream header for SSE.''),
                  tr))
      else (JSONResponse 400 (error_reply (- 32600) ''Missing Mcp-Session-Id header''), tr))"

text \<open>The branch that validates the session named by a non-empty header.\<close>

definition with_session_id ::
  "(Request \<Rightarrow> HTTPTransport \<Rightarrow> Response \<times> HTTPTransport) \<Rightarrow> env \<Rightarrow> string \<Rightarrow> Request
     \<Rightarrow> HTTPTransport \<Rightarrow> Response \<times> HTTPTransport" where
  "with_session_id call_next e sid request tr =
     (case get_session (session_manager tr) sid (t_check e) (t_touch e) of
        (None, sm') \<Rightarrow>
          (JSONResponse 400 (error_reply (- 32600) ''Invalid or expired session ID''),
           tr\<lparr>session_manager := sm'\<rparr>)
      | (Some session, sm') \<Rightarrow>
          (let served = call_next (request\<lparr>mcp_session := Some sid\<rparr>) (tr\<lparr>session_manager := sm'\<rparr>)
           in (fst served,
               modify_session sid (\<lambda>s. update_access_time s (t_after e)) (snd served))))"

definition dispatch ::
  "(Request \<Rightarrow> HTTPTransport \<Rightarrow> Response \<times> HTTPTransport) \<Rightarrow> env \<Rightarrow> Request \<Rightarrow> HTTPTransport
     \<Rightarrow> Response \<times> HTTPTransport" where
  "dispatch call_next e request tr =
     (if url_path request \<in> set [''/health'', ''/metrics''] then call_next request tr
      else if url_path request = ''/mcp''
              \<and> http_method request \<notin> set [''GET'', ''POST'', ''DELETE'']
      then (JSONResponse 405
              (JObject [(''error'', JString ''Method not allowed''),
                        (''allowed_methods'',
                           JArray [JString ''GET'', JString ''POST'', JString ''DELETE''])]), tr)
      else if is_legacy_sse_request request
      then (let created = create_for_request e request tr
            in call_next (request\<lparr>mcp_session := Some (Session.session_id (fst created))\<rparr>)
                 (snd created))
      else if is_initialization_request request
      then (let served = call_next request tr in
            if status_code (fst served) = 200
            then (let created = create_for_request e request (snd served)
                  in ((fst served)\<lparr>response_headers :=
                        AList.update ''Mcp-Session-Id'' (Session.session_id (fst created))
                          (response_headers (fst served))\<rparr>,
                      snd created))
            else served)
      else (case map_of (headers request) ''Mcp-Session-Id'' of
              None \<Rightarrow> without_session_id call_next e request tr
            | Some sid \<Rightarrow>
                if sid = [] then without_session_id call_next e request tr
                else with_session_id call_next e sid request tr))"

text \<open>\<open>@self.app.post("/mcp")\<close>: the application behind the middleware for a POST to \<open>/mcp\<close>.\<close>

definition mcp_post_endpoint :: "runtime \<Rightarrow> Request \<Rightarrow> HTTPTransport \<Rightarrow> Response \<times> HTTPTransport" where
  "mcp_post_endpoint rt request tr = handle_mcp_request rt request tr"

section \<open>Example states used in the properties\<close>

definition session0 :: Session where
  "session0 = \<lparr>session_id = ''abc'', created_at = Finite 0 0, last_accessed = Finite 0 0,
               client_info = [], capabilities = JObject [], session_context = []\<rparr>"

definition manager0 :: SessionManager where
  "manager0 = \<lparr>session_timeout = Finite 3600 0, cleanup_interval = Finite 300 0,
               sessions = [(''abc'', session0)],
               last_cleanup = Finite 0 0, manager_created_at = Finite 0 0\<rparr>"

definition transport0 :: HTTPTransport where
  "transport0 = \<lparr>session_manager = \<lparr>session_timeout = Finite 3600 0,
                    cleanup_interval = Finite 300 0, sessions = [],
                    last_cleanup = Finite 0 0, manager_created_at = Finite 0 0\<rparr>,
                  message_queues = [(''abc'', [])], root_log_level = 20\<rparr>"

definition runtime0 :: runtime where
  "runtime0 = \<lparr>py_str = (\<lambda>v. case v of JInt i \<Rightarrow> (if i = 7 then ''7'' else ''int'') | _ \<Rightarrow> ''value''),
                tool_registry = Inr [],
                has_tool = (\<lambda>n. Inr (n = JString ''get_gpu_status'')),
                call_tool = (\<lambda>n a. Inl ''device lost''),
                encodes = (\<lambda>v. True)\<rparr>"

definition notification0 :: "(string \<times> json) list" where
  "notification0 = [(''jsonrpc'', JString ''2.0''), (''method'', JString ''notifications/initialized'')]"

definition request0 :: "json \<Rightarrow> Request" where
  "request0 j = \<lparr>http_method = ''POST'', url_path = ''/mcp'', headers = [], client = None,
                  body = JSON j, mcp_session = None\<rparr>"

definition tools_call_nameless :: "(string \<times> json) list" where
  "tools_call_nameless =
     [(''jsonrpc'', JString ''2.0''), (''id'', JInt 7), (''method'', JString ''tools/call''),
      (''params'', JObject [(''name'', JString [])])]"

definition tools_call_array :: "(string \<times> json) list" where
  "tools_call_array =
     [(''jsonrpc'', JString ''2.0''), (''id'', JInt 7), (''method'', JString ''tools/call''),
      (''params'', JArray [])]"


text \<open>The URL-safe characters: letters, digits, \<open>-\<close> and \<open>_\<close>.\<close>

definition url_safe :: "char \<Rightarrow> bool" where
  "url_safe c =
     (let n = (of_char c :: nat)
      in (65 \<le> n \<and> n \<le> 90) \<or> (97 \<le> n \<and> n \<le> 122) \<or> (48 \<le> n \<and> n \<le> 57)
         \<or> c = CHR ''-'' \<or> c = CHR ''_'')"

definition env0 :: env where
  "env0 = \<lparr>sha256 = (\<lambda>data. replicate 32 0), random_bytes = [], timestamp = [],
            t_create = Finite 1000 0, t_sweep = Finite 1000 0, t_scan = (\<lambda>i. Finite 1000 0),
            t_check = Finite 1000 0, t_touch = Finite 1000 0, t_after = Finite 1000 0\<rparr>"

definition tools_list0 :: json where
  "tools_list0 = JObject [(''jsonrpc'', JString ''2.0''), (''id'', JInt 1), (''method'', JString ''tools/list'')]"

definition initialize_fields :: "(string \<times> json) list" where
  "initialize_fields =
     [(''jsonrpc'', JString ''2.0''), (''id'', JInt 1), (''method'', JString ''initialize''),
      (''params'', JObject [(''clientInfo'', JObject [(''name'', JString ''X'')])])]"


definition transport1 :: HTTPTransport where
  "transport1 = \<lparr>session_manager = \<lparr>session_timeout = Finite 3600 0,
                    cleanup_interval = Finite 300 0, sessions = [],
                    last_cleanup = Finite 900 0, manager_created_at = Finite 0 0\<rparr>,
                  message_queues = [], root_log_level = 20\<rparr>"

definition empty_header_request :: Request where
  "empty_header_request = \<lparr>http_method = ''POST'', url_path = ''/mcp'',
      headers = [(''Mcp-Session-Id'', [])], client = None, body = JSON tools_list0, mcp_session = None\<rparr>"

definition transport2 :: HTTPTransport where
  "transport2 = \<lparr>session_manager = manager0, message_queues = [], root_log_level = 20\<rparr>"

definition bound_request :: Request where
  "bound_request = \<lparr>http_method = ''POST'', url_path = ''/mcp'',
      headers = [(''Mcp-Session-Id'', ''abc'')], client = None,
      body = JSON (JObject initialize_fields), mcp_session = None\<rparr>"

definition initialize_inf_id :: json where
  "initialize_inf_id =
     JObject [(''jsonrpc'', JString ''2.0''), (''id'', JFloat PosInf), (''method'', JString ''initialize'')]"

section \<open>Properties\<close>

subsection \<open>Float arithmetic on literals\<close>

lemma bit_length_numeral:
  "bit_length 0 = 0"
  "bit_length 1 = 1"
  "bit_length (numeral k) = Suc (bit_length (numeral k div 2))"
  by (simp_all add: bit_length.simps [of 0] bit_length.simps [of 1] bit_length.simps [of "numeral k"])

text \<open>
  The subtraction rounds: \<open>2 ^ 53 - (- 1.0)\<close> is \<open>2 ^ 53\<close> again, so a session last accessed at
  \<open>- 1.0\<close> is not expired at the clock reading \<open>2 ^ 53\<close> under the timeout \<open>2 ^ 53\<close>, although the
  exact difference exceeds the timeout.
\<close>

lemma float_sub_rounds:
  "float_sub (Finite 4503599627370496 1) (Finite (- 1) 0) = Finite 4503599627370496 1"
  by (simp add: round_binary64_def bit_length_numeral Let_def)

lemma is_expired_rounds:
  "\<not> is_expired (session0\<lparr>last_accessed := Finite (- 1) 0\<rparr>)
        (Finite 4503599627370496 1) (Finite 4503599627370496 1)"
  by (simp add: is_expired_def round_binary64_def bit_length_numeral Let_def)

subsection \<open>Session lookup and expiry\<close>

lemma map_of_Some_key: "map_of al k = Some v \<Longrightarrow> k \<in> fst ` set al"
  by (metis domI dom_map_of_conv_image_fst)

text \<open>
  Claim C3, as the code has it. For a stored session \<open>s\<close> under a non-empty id, \<open>get_session\<close>
  returns \<open>None\<close> exactly when the float difference between the clock reading and the last
  access, as binary64 rounds it, is strictly greater than the timeout. Then the record is
  deleted and every other record is untouched. Otherwise the call returns the record with
  \<open>last_accessed\<close> set to the clock reading of \<open>update_access_time\<close>, the store holds that
  record, and the store's keys are the same.
\<close>

theorem get_session_strict_expiry:
  assumes "map_of (sessions sm) sid = Some s" and "sid \<noteq> []"
  shows "(fst (get_session sm sid now_check now_touch) = None
            \<longleftrightarrow> float_less (session_timeout sm) (float_sub now_check (last_accessed s)))
       \<and> (float_less (session_timeout sm) (float_sub now_check (last_accessed s)) \<longrightarrow>
            map_of (sessions (snd (get_session sm sid now_check now_touch))) sid = None
          \<and> (\<forall>k. k \<noteq> sid \<longrightarrow>
               map_of (sessions (snd (get_session sm sid now_check now_touch))) k = map_of (sessions sm) k))
       \<and> (\<not> float_less (session_timeout sm) (float_sub now_check (last_accessed s)) \<longrightarrow>
            fst (get_session sm sid now_check now_touch) = Some (s\<lparr>last_accessed := now_touch\<rparr>)
          \<and> map_of (sessions (snd (get_session sm sid now_check now_touch))) sid
              = Some (s\<lparr>last_accessed := now_touch\<rparr>)
          \<and> map fst (sessions (snd (get_session sm sid now_check now_touch))) = map fst (sessions sm))"
  using assms
  by (auto simp: get_session_def is_expired_def update_access_time_def Let_def
                 AList.delete_conv' AList.update_conv' AList.update_keys map_of_Some_key)

theorem get_session_strict_expiry_witness:
  "fst (get_session manager0 ''abc'' (Finite 3601 0) (Finite 3601 0)) = None
   \<and> map_of (sessions (snd (get_session manager0 ''abc'' (Finite 3601 0) (Finite 3601 0)))) ''abc'' = None
   \<and> fst (get_session manager0 ''abc'' (Finite 3600 0) (Finite 3602 0))
       = Some (session0\<lparr>last_accessed := Finite 3602 0\<rparr>)"
proof -
  have m: "map_of (sessions manager0) ''abc'' = Some session0" and n: "''abc'' \<noteq> []"
    by (simp_all add: manager0_def)
  have a: "float_less (session_timeout manager0) (float_sub (Finite 3601 0) (last_accessed session0))"
    and b: "\<not> float_less (session_timeout manager0) (float_sub (Finite 3600 0) (last_accessed session0))"
    by (simp_all add: manager0_def session0_def round_binary64_def)
  show ?thesis
    using get_session_strict_expiry [OF m n, of "Finite 3601 0" "Finite 3601 0"]
          get_session_strict_expiry [OF m n, of "Finite 3600 0" "Finite 3602 0"] a b
    by blast
qed

text \<open>
  Claim C3 as the specification words it fails at the boundary: with the last access at 0
  and a timeout of 3600, a lookup at the clock reading 3600 finds the difference equal to
  the timeout, so \<open>now - lastAccessedAt >= timeout\<close> holds, yet the record is returned,
  refreshed, and still stored.
\<close>

theorem get_session_boundary_counterexample:
  "float_sub (Finite 3600 0) (last_accessed session0) = session_timeout manager0
   \<and> fst (get_session manager0 ''abc'' (Finite 3600 0) (Finite 3600 0))
       = Some (session0\<lparr>last_accessed := Finite 3600 0\<rparr>)
   \<and> map_of (sessions (snd (get_session manager0 ''abc'' (Finite 3600 0) (Finite 3600 0)))) ''abc''
       = Some (session0\<lparr>last_accessed := Finite 3600 0\<rparr>)"
  by (simp add: get_session_def is_expired_def update_access_time_def session0_def manager0_def
        round_binary64_def Let_def)

subsection \<open>Event channels\<close>

text \<open>
  Claim C9. Pushing a message for a session id that has no queue returns normally and
  leaves the whole transport state as it was: no queue is created and the map of queues is
  unchanged.
\<close>

theorem send_sse_message_silent_drop:
  assumes "map_of (message_queues tr) sid = None"
  shows "send_sse_message tr sid message = tr"
  using assms by (simp add: send_sse_message_def)

theorem send_sse_message_silent_drop_witness:
  "map_of (message_queues transport0) ''zzz'' = None
   \<and> send_sse_message transport0 ''zzz'' (JString ''frame'') = transport0"
  using send_sse_message_silent_drop [of transport0 "''zzz''" "JString ''frame''"]
  by (simp add: transport0_def)

lemma bound_session_id_send [simp]:
  "bound_session_id (send_sse_message tr sid m) ref = bound_session_id tr ref"
  by (simp add: bound_session_id_def send_sse_message_def split: option.splits)


subsection \<open>Envelope validation\<close>

text \<open>
  Every error object of the validator carries the code -32600 and a non-empty reason, and
  the branch that rejects the shape of \<open>params\<close> copies the identifier of the envelope.
\<close>

lemma validate_jsonrpc_request_error_shape:
  assumes "validate_jsonrpc_request json_data = Some err"
  shows "\<exists>msg. msg \<noteq> [] \<and> (err = error_reply (- 32600) msg
                           \<or> (\<exists>d. json_data = JObject d
                                  \<and> err = error_reply_id (dict_get d ''id'') (- 32600) msg))"
  using assms
  by (auto simp: validate_jsonrpc_request_def split: json.splits if_splits)

lemma validate_jsonrpc_request_params_echo:
  assumes "dict_get d ''jsonrpc'' = JString ''2.0''"
      and "dict_get d ''method'' = JString m" and "m \<noteq> []"
      and "map_of d ''id'' = Some rid"
      and "dict_get d ''params'' = JString p"
  shows "validate_jsonrpc_request (JObject d)
       = Some (error_reply_id rid (- 32600) ''Invalid Request: params must be an object or array'')"
  using assms by (simp add: validate_jsonrpc_request_def dict_get_def)

text \<open>
  Claim C6 at the envelope of the specification's scenario B: the envelope has the
  identifier 1 and a wrong version tag, and the error object that the validator returns
  has the invalid-request code and a reason but no \<open>id\<close> entry. Only the branch that rejects
  the shape of \<open>params\<close> copies the identifier.
\<close>

theorem validate_jsonrpc_request_omits_id:
  "validate_jsonrpc_request
     (JObject [(''jsonrpc'', JString ''1.0''), (''id'', JInt 1), (''method'', JString ''initialize'')])
   = Some (JObject [(''jsonrpc'', JString ''2.0''),
                    (''error'', JObject [(''code'', JInt (- 32600)),
                       (''message'', JString (''Invalid Request: jsonrpc must be '' @ [CHR 0x27] @ ''2.0'' @ [CHR 0x27]))])])"
  by (simp add: validate_jsonrpc_request_def dict_get_def error_reply_def error_body_def)

subsection \<open>The dispatcher\<close>

lemma notification_not_routed:
  assumes "startswith m ''notifications/''"
  shows "m \<noteq> ''initialize''" and "m \<noteq> ''tools/list''" and "m \<noteq> ''tools/call''"
    and "m \<noteq> ''resources/list''" and "m \<noteq> ''resources/read''"
    and "m \<noteq> ''prompts/list''" and "m \<noteq> ''prompts/get''" and "m \<noteq> ''logging/setLevel''"
  using assms by (auto simp: startswith_def)

text \<open>
  Claim C8. For an envelope that the validator accepts and whose method name begins with
  \<open>notifications/\<close>, the dispatcher returns Python's \<open>None\<close> and leaves the state unchanged,
  whatever session is bound, and the POST endpoint answers with status 204 and no body.
\<close>

theorem notification_no_content:
  assumes "validate_jsonrpc_request (JObject d) = None"
      and "dict_get d ''method'' = JString m"
      and "startswith m ''notifications/''"
      and "body request = JSON (JObject d)"
  shows "process_mcp_request rt (JObject d) session tr = (Inr None, tr)
       \<and> handle_mcp_request rt request tr
           = (\<lparr>status_code = 204, content = NoContent, response_headers = []\<rparr>, tr)"
proof -
  have p: "process_mcp_request rt (JObject d) session tr = (Inr None, tr)" for session
    using assms(2,3) notification_not_routed [OF assms(3)]
    by (simp add: process_mcp_request_def Let_def)
  show ?thesis
    using assms(1,4) p by (simp add: handle_mcp_request_def)
qed

theorem notification_no_content_witness:
  "validate_jsonrpc_request (JObject notification0) = None
   \<and> process_mcp_request runtime0 (JObject notification0) None transport0 = (Inr None, transport0)
   \<and> handle_mcp_request runtime0 (request0 (JObject notification0)) transport0
       = (\<lparr>status_code = 204, content = NoContent, response_headers = []\<rparr>, transport0)"
proof -
  have v: "validate_jsonrpc_request (JObject notification0) = None"
    by (simp add: validate_jsonrpc_request_def notification0_def dict_get_def startswith_def)
  have m: "dict_get notification0 ''method'' = JString ''notifications/initialized''"
    by (simp add: notification0_def dict_get_def)
  have s: "startswith ''notifications/initialized'' ''notifications/''"
    by (simp add: startswith_def)
  have b: "body (request0 (JObject notification0)) = JSON (JObject notification0)"
    by (simp add: request0_def)
  show ?thesis
    using notification_no_content [OF v m s b, of runtime0 None transport0] v by simp
qed

subsection \<open>Tool invocation\<close>

text \<open>
  Claim C10, as the code has it. A \<open>tools/call\<close> request whose \<open>params\<close> is an object (the one
  of the envelope, or the empty dictionary when the envelope has none) that holds no
  \<open>name\<close>, or the empty string as \<open>name\<close>, is answered by the handler and by the dispatcher
  with the error object of code -32602 and message "Tool name is required", carrying the
  identifier of the envelope. The state is returned unchanged (no frame is queued, no
  session is touched), and the answer is the same for every registry, which is therefore
  not consulted.
\<close>

theorem tools_call_requires_name:
  assumes "dict_get d ''method'' = JString ''tools/call''"
      and "dict_get_default d ''params'' (JObject []) = JObject ps"
      and "map_of ps ''name'' = None \<or> map_of ps ''name'' = Some (JString [])"
  shows "handle_tools_call rt (JObject ps) (dict_get d ''id'') session tr
           = (Inr (JObject [(''jsonrpc'', JString ''2.0''), (''id'', dict_get d ''id''),
                            (''error'', JObject [(''code'', JInt (- 32602)),
                                                 (''message'', JString ''Tool name is required'')])]),
              tr)
       \<and> process_mcp_request rt (JObject d) session tr
           = (Inr (Some (JObject [(''jsonrpc'', JString ''2.0''), (''id'', dict_get d ''id''),
                                  (''error'', JObject [(''code'', JInt (- 32602)),
                                                       (''message'', JString ''Tool name is required'')])])),
              tr)"
proof -
  have n: "\<not> truthy (dict_get ps ''name'')"
    using assms(3) by (auto simp: dict_get_def)
  have h: "handle_tools_call rt (JObject ps) (dict_get d ''id'') session tr
           = (Inr (JObject [(''jsonrpc'', JString ''2.0''), (''id'', dict_get d ''id''),
                            (''error'', JObject [(''code'', JInt (- 32602)),
                                                 (''message'', JString ''Tool name is required'')])]),
              tr)"
    using n by (simp add: handle_tools_call_def Let_def error_reply_id_def error_body_def)
  show ?thesis
    using h assms(1,2) by (simp add: process_mcp_request_def Let_def replying_def)
qed

theorem tools_call_requires_name_witness:
  "process_mcp_request runtime0 (JObject tools_call_nameless) (Some ''abc'') transport0
     = (Inr (Some (JObject [(''jsonrpc'', JString ''2.0''), (''id'', JInt 7),
                            (''error'', JObject [(''code'', JInt (- 32602)),
                                                 (''message'', JString ''Tool name is required'')])])),
        transport0)"
proof -
  have m: "dict_get tools_call_nameless ''method'' = JString ''tools/call''"
    by (simp add: tools_call_nameless_def dict_get_def)
  have p: "dict_get_default tools_call_nameless ''params'' (JObject [])
             = JObject [(''name'', JString [])]"
    by (simp add: tools_call_nameless_def dict_get_default_def)
  have n: "map_of [(''name'', JString [])] ''name'' = None
           \<or> map_of [(''name'', JString [])] ''name'' = Some (JString [])"
    by simp
  have i: "dict_get tools_call_nameless ''id'' = JInt 7"
    by (simp add: tools_call_nameless_def dict_get_def)
  show ?thesis
    using tools_call_requires_name [OF m p n, of runtime0 "Some ''abc''" transport0] i by simp
qed

text \<open>
  Claim C10 without the restriction to an object fails for a \<open>tools/call\<close> request whose
  \<open>params\<close> is the empty array: the envelope is accepted, its \<open>params\<close> contain no tool name, and
  \<open>params.get\<close> raises before the name is looked at. The dispatcher raises
  \<open>AttributeError\<close> and the endpoint answers 500 with the internal-error code -32603, not
  with the invalid-params error.
\<close>

theorem tools_call_array_params_counterexample:
  "validate_jsonrpc_request (JObject tools_call_array) = None
   \<and> process_mcp_request runtime0 (JObject tools_call_array) None transport0
       = (Inl AttributeError, transport0)
   \<and> handle_mcp_request runtime0 (request0 (JObject tools_call_array)) transport0
       = (\<lparr>status_code = 500,
           content = JSONContent (JObject [(''jsonrpc'', JString ''2.0''),
                        (''error'', JObject [(''code'', JInt (- 32603)),
                                             (''message'', JString ''Internal server error'')])]),
           response_headers = []\<rparr>,
          transport0)"
  by (simp add: validate_jsonrpc_request_def tools_call_array_def dict_get_def dict_get_default_def
        startswith_def process_mcp_request_def handle_tools_call_def replying_def
        handle_mcp_request_def request0_def internal_server_error_def JSONResponse_def
        error_reply_def error_body_def Let_def)



subsection \<open>Session identifiers\<close>

lemma byte_bound: "unat (b :: byte) < 256"
  using unsigned_less [of b] by simp

lemma alphabet_url_safe: "\<forall>c \<in> set b64url_alphabet. url_safe c"
  by (simp add: b64url_alphabet_def url_safe_def)

lemma b64_url_safe: "i < 64 \<Longrightarrow> url_safe (b64 i)"
proof -
  assume "i < 64"
  then have "b64url_alphabet ! i \<in> set b64url_alphabet"
    by (intro nth_mem) (simp add: b64url_alphabet_def)
  then show ?thesis
    using alphabet_url_safe by (simp add: b64_def)
qed

lemma url_safe_not_pad: "url_safe c \<Longrightarrow> c \<noteq> CHR ''=''"
  by (auto simp: url_safe_def)

lemma sextets:
  fixes a b c :: byte
  shows "unat a div 4 < 64" and "unat a mod 4 * 16 < 64"
    and "unat a mod 4 * 16 + unat b div 16 < 64"
    and "unat b mod 16 * 4 < 64" and "unat b mod 16 * 4 + unat c div 64 < 64"
    and "unat c mod 64 < 64"
  using byte_bound [of a] byte_bound [of b] byte_bound [of c] by simp_all

lemma urlsafe_b64encode_shape:
  "\<exists>chars. urlsafe_b64encode bs = chars @ replicate ((3 - length bs mod 3) mod 3) (CHR ''='')
         \<and> (\<forall>c \<in> set chars. url_safe c)
         \<and> length chars = (4 * length bs + 2) div 3"
proof (induction bs rule: urlsafe_b64encode.induct)
  case 1
  show ?case by simp
next
  case (2 a)
  show ?case
    by (rule exI [of _ "[b64 (unat a div 4), b64 (unat a mod 4 * 16)]"])
       (simp add: b64_url_safe sextets numeral_2_eq_2)
next
  case (3 a b)
  show ?case
    by (rule exI [of _ "[b64 (unat a div 4), b64 (unat a mod 4 * 16 + unat b div 16),
                         b64 (unat b mod 16 * 4)]"])
       (simp add: b64_url_safe sextets)
next
  case (4 a b c rest)
  then obtain chars where
    r: "urlsafe_b64encode rest = chars @ replicate ((3 - length rest mod 3) mod 3) (CHR ''='')"
    and s: "\<forall>c \<in> set chars. url_safe c"
    and l: "length chars = (4 * length rest + 2) div 3"
    by blast
  have m: "(length (a # b # c # rest)) mod 3 = length rest mod 3"
    by simp
  show ?case
    apply (rule exI [of _ "[b64 (unat a div 4), b64 (unat a mod 4 * 16 + unat b div 16),
                         b64 (unat b mod 16 * 4 + unat c div 64), b64 (unat c mod 64)] @ chars"])
    unfolding m using r s l by (simp add: b64_url_safe sextets)
qed

lemma rstrip_padding:
  assumes "\<forall>c \<in> set chars. c \<noteq> x"
  shows "rstrip x (chars @ replicate k x) = chars"
proof -
  have "dropWhile (\<lambda>y. y = x) (replicate k x @ rev chars) = dropWhile (\<lambda>y. y = x) (rev chars)"
    by (induction k) simp_all
  moreover have "dropWhile (\<lambda>y. y = x) (rev chars) = rev chars"
    using assms by (cases "rev chars") (auto simp: dropWhile_eq_self_iff dest: arg_cong [of _ _ set])
  ultimately show ?thesis
    by (simp add: rstrip_def)
qed

lemma length_hexdigest: "length (hexdigest ds) = 2 * length ds"
  by (induction ds) (simp_all add: hexdigest_def)

lemma length_encode_utf8: "length (encode_utf8 s) = length s"
  by (simp add: encode_utf8_def)

text \<open>
  Claim C7. Whenever the hash function returns the 32 bytes of a SHA-256 digest, the
  generated identifier consists of URL-safe characters only (letters, digits, \<open>-\<close>, \<open>_\<close>)
  and is exactly 86 characters long, which lies between 20 and 100.
\<close>

theorem generate_session_id_url_safe:
  assumes "length (sha256 e (random_bytes e @ timestamp e)) = 32"
  shows "(\<forall>c \<in> set (generate_session_id e). url_safe c)
       \<and> length (generate_session_id e) = 86
       \<and> 20 \<le> length (generate_session_id e) \<and> length (generate_session_id e) \<le> 100"
proof -
  define bs where "bs = encode_utf8 (hexdigest (sha256 e (random_bytes e @ timestamp e)))"
  have len: "length bs = 64"
    using assms by (simp add: bs_def length_encode_utf8 length_hexdigest)
  obtain chars where
    r: "urlsafe_b64encode bs = chars @ replicate ((3 - length bs mod 3) mod 3) (CHR ''='')"
    and s: "\<forall>c \<in> set chars. url_safe c"
    and l: "length chars = (4 * length bs + 2) div 3"
    using urlsafe_b64encode_shape [of bs] by blast
  have "generate_session_id e = rstrip (CHR ''='') (urlsafe_b64encode bs)"
    by (simp add: generate_session_id_def bs_def Let_def)
  also have "\<dots> = chars"
    unfolding r using s by (intro rstrip_padding) (auto dest: url_safe_not_pad)
  finally have g: "generate_session_id e = chars" .
  show ?thesis
    unfolding g using s l len by simp
qed

theorem generate_session_id_url_safe_witness:
  "length (sha256 env0 (random_bytes env0 @ timestamp env0)) = 32
   \<and> list_all url_safe (generate_session_id env0)
   \<and> length (generate_session_id env0) = 86"
  using generate_session_id_url_safe [of env0] by (simp add: env0_def list_all_iff)

subsection \<open>Creation of a session\<close>

lemma expired_sessions_mem:
  "k \<in> set (expired_sessions timeout clock i al) \<Longrightarrow>
   \<exists>s j. (k, s) \<in> set al \<and> is_expired s timeout (clock j)"
proof (induction al arbitrary: i)
  case Nil
  then show ?case by simp
next
  case (Cons p al)
  obtain k' s' where p: "p = (k', s')"
    by (cases p)
  show ?case
  proof (cases "k \<in> set (expired_sessions timeout clock (Suc i) al)")
    case True
    then show ?thesis
      using Cons.IH by fastforce
  next
    case False
    then have "k = k'" and "is_expired s' timeout (clock i)"
      using Cons.prems p by (auto split: if_splits)
    then show ?thesis
      using p by auto
  qed
qed

lemma map_of_fold_delete_other:
  "k \<notin> set ks \<Longrightarrow> map_of (fold AList.delete ks al) k = map_of al k"
  by (induction ks arbitrary: al) (simp_all add: AList.delete_conv')

text \<open>
  \<open>create_session\<close> stores the new record under the generated id, and the sweep that follows
  keeps it when no clock reading of the sweep finds it expired.
\<close>

lemma create_session_stored:
  assumes "distinct (map fst (sessions sm))"
      and "\<forall>i. \<not> float_less (session_timeout sm) (float_sub (t_scan e i) (t_create e))"
  shows "map_of (sessions (snd (create_session e (Some ci) None sm))) (generate_session_id e)
       = Some \<lparr>session_id = generate_session_id e, created_at = t_create e,
               last_accessed = t_create e, client_info = ci, capabilities = JObject [],
               session_context = []\<rparr>"
proof -
  let ?new = "\<lparr>session_id = generate_session_id e, created_at = t_create e,
               last_accessed = t_create e, client_info = ci, capabilities = JObject [],
               session_context = []\<rparr>"
  let ?al = "AList.update (generate_session_id e) ?new (sessions sm)"
  have m: "map_of ?al (generate_session_id e) = Some ?new"
    by (simp add: AList.update_conv')
  have d: "distinct (map fst ?al)"
    using assms(1) by (rule AList.distinct_update)
  have n: "generate_session_id e \<notin> set (expired_sessions (session_timeout sm) (t_scan e) 0 ?al)"
  proof
    assume "generate_session_id e \<in> set (expired_sessions (session_timeout sm) (t_scan e) 0 ?al)"
    then obtain s j where s: "(generate_session_id e, s) \<in> set ?al"
      and x: "is_expired s (session_timeout sm) (t_scan e j)"
      using expired_sessions_mem by blast
    have "s = ?new"
      using s d m by (metis map_of_is_SomeI option.inject)
    then show False
      using x assms(2) by (simp add: is_expired_def)
  qed
  show ?thesis
    using m n
    by (simp add: create_session_def cleanup_expired_sessions_def Let_def map_of_fold_delete_other)
qed

lemma create_for_request_stored:
  assumes "distinct (map fst (sessions (session_manager tr)))"
      and "\<forall>i. \<not> float_less (session_timeout (session_manager tr))
                   (float_sub (t_scan e i) (t_create e))"
  shows "map_of (sessions (session_manager (snd (create_for_request e request tr))))
           (generate_session_id e)
       = Some \<lparr>session_id = generate_session_id e, created_at = t_create e,
               last_accessed = t_create e, client_info = extract_client_info_sync request,
               capabilities = JObject [], session_context = []\<rparr>"
  using create_session_stored [OF assms]
  by (simp add: create_for_request_def Let_def)

lemma create_for_request_rest:
  "message_queues (snd (create_for_request e request tr)) = message_queues tr"
  "root_log_level (snd (create_for_request e request tr)) = root_log_level tr"
  "Session.session_id (fst (create_for_request e request tr)) = generate_session_id e"
  by (simp_all add: create_for_request_def create_session_def Let_def)

subsection \<open>Requests without a session header\<close>

lemma dispatch_initialization:
  assumes "map_of (headers request) ''Mcp-Session-Id'' = None"
      and "http_method request \<noteq> ''GET''"
      and "url_path request \<notin> {''/health'', ''/metrics''}"
      and "url_path request = ''/mcp'' \<longrightarrow> http_method request \<in> {''POST'', ''DELETE''}"
  shows "dispatch call_next e request tr
          = (if status_code (fst (call_next request tr)) = 200
             then ((fst (call_next request tr))\<lparr>response_headers :=
                      AList.update ''Mcp-Session-Id'' (generate_session_id e)
                        (response_headers (fst (call_next request tr)))\<rparr>,
                   snd (create_for_request e request (snd (call_next request tr))))
             else call_next request tr)"
proof -
  have i: "is_initialization_request request" and l: "\<not> is_legacy_sse_request request"
    using assms by (simp_all add: is_initialization_request_def is_legacy_sse_request_def)
  show ?thesis
    using assms i l by (auto simp: dispatch_def Let_def create_for_request_rest)
qed

text \<open>
  Claim C1, as the code has it. Take a request without the \<open>Mcp-Session-Id\<close> header whose
  HTTP verb is not GET, that does not go to \<open>/health\<close> or \<open>/metrics\<close> and, when it goes to
  \<open>/mcp\<close>, is a POST or a DELETE. Whatever its body says, the application behind the
  middleware runs on it as it came, with the state as it was. When the reply has status
  200, the reply is passed on with the id of a new session in its \<open>Mcp-Session-Id\<close> header,
  the queues and the log level are those the application left, and the store holds under
  the new id a record stamped with the creation time that carries the metadata of the
  HTTP request, provided the stored ids are distinct and no clock reading of the sweep
  finds the new record expired. When the reply has another status, reply and state are
  passed on as they are. The rejection with status 400, code -32600 and the message
  "Missing Mcp-Session-Id header", with the state untouched and the application not run,
  is what a request gets that does not go to \<open>/health\<close> or \<open>/metrics\<close>, is not a GET to \<open>/mcp\<close>,
  has one of the verbs GET, POST, DELETE when it goes to \<open>/mcp\<close>, and either carries an empty
  header, or is a GET without the header other than a GET to \<open>/sse\<close> that accepts
  \<open>text/event-stream\<close>.
\<close>

theorem dispatch_without_session_header:
  "(map_of (headers request) ''Mcp-Session-Id'' = None
      \<and> http_method request \<noteq> ''GET''
      \<and> url_path request \<notin> {''/health'', ''/metrics''}
      \<and> (url_path request = ''/mcp'' \<longrightarrow> http_method request \<in> {''POST'', ''DELETE''})
    \<longrightarrow> (status_code (fst (call_next request tr)) \<noteq> 200
           \<longrightarrow> dispatch call_next e request tr = call_next request tr)
      \<and> (status_code (fst (call_next request tr)) = 200
           \<longrightarrow> fst (dispatch call_next e request tr)
                 = (fst (call_next request tr))\<lparr>response_headers :=
                      AList.update ''Mcp-Session-Id'' (generate_session_id e)
                        (response_headers (fst (call_next request tr)))\<rparr>
               \<and> message_queues (snd (dispatch call_next e request tr))
                   = message_queues (snd (call_next request tr))
               \<and> root_log_level (snd (dispatch call_next e request tr))
                   = root_log_level (snd (call_next request tr))
               \<and> (distinct (map fst (sessions (session_manager (snd (call_next request tr)))))
                    \<and> (\<forall>i. \<not> float_less
                                 (session_timeout (session_manager (snd (call_next request tr))))
                                 (float_sub (t_scan e i) (t_create e)))
                  \<longrightarrow> map_of (sessions (session_manager (snd (dispatch call_next e request tr))))
                         (generate_session_id e)
                       = Some \<lparr>session_id = generate_session_id e, created_at = t_create e,
                               last_accessed = t_create e,
                               client_info = extract_client_info_sync request,
                               capabilities = JObject [], session_context = []\<rparr>)))
   \<and> (url_path request \<notin> {''/health'', ''/metrics''}
      \<and> \<not> (url_path request = ''/mcp'' \<and> http_method request = ''GET'')
      \<and> (url_path request = ''/mcp'' \<longrightarrow> http_method request \<in> {''GET'', ''POST'', ''DELETE''})
      \<and> (map_of (headers request) ''Mcp-Session-Id'' = Some []
          \<or> (map_of (headers request) ''Mcp-Session-Id'' = None \<and> http_method request = ''GET''
               \<and> \<not> (url_path request = ''/sse''
                      \<and> str_contains
                           (case map_of (headers request) ''Accept'' of None \<Rightarrow> [] | Some a \<Rightarrow> a)
                           ''text/event-stream'')))
    \<longrightarrow> dispatch call_next e request tr
          = (\<lparr>status_code = 400,
              content = JSONContent (JObject [(''jsonrpc'', JString ''2.0''),
                           (''error'', JObject [(''code'', JInt (- 32600)),
                              (''message'', JString ''Missing Mcp-Session-Id header'')])]),
              response_headers = []\<rparr>,
             tr))"
proof (intro conjI impI)
  assume a: "map_of (headers request) ''Mcp-Session-Id'' = None
      \<and> http_method request \<noteq> ''GET''
      \<and> url_path request \<notin> {''/health'', ''/metrics''}
      \<and> (url_path request = ''/mcp'' \<longrightarrow> http_method request \<in> {''POST'', ''DELETE''})"
  note d = dispatch_initialization [of request call_next e tr]
  {
    assume "status_code (fst (call_next request tr)) \<noteq> 200"
    then show "dispatch call_next e request tr = call_next request tr"
      using a d by simp
  }
  {
    assume s: "status_code (fst (call_next request tr)) = 200"
    have d2: "dispatch call_next e request tr
               = ((fst (call_next request tr))\<lparr>response_headers :=
                      AList.update ''Mcp-Session-Id'' (generate_session_id e)
                        (response_headers (fst (call_next request tr)))\<rparr>,
                  snd (create_for_request e request (snd (call_next request tr))))"
      using a d s by simp
    show "fst (dispatch call_next e request tr)
                 = (fst (call_next request tr))\<lparr>response_headers :=
                      AList.update ''Mcp-Session-Id'' (generate_session_id e)
                        (response_headers (fst (call_next request tr)))\<rparr>"
      unfolding d2 by simp
    show "message_queues (snd (dispatch call_next e request tr))
                   = message_queues (snd (call_next request tr))"
      unfolding d2 by (simp add: create_for_request_rest)
    show "root_log_level (snd (dispatch call_next e request tr))
                   = root_log_level (snd (call_next request tr))"
      unfolding d2 by (simp add: create_for_request_rest)
    {
      assume k: "distinct (map fst (sessions (session_manager (snd (call_next request tr)))))
                    \<and> (\<forall>i. \<not> float_less
                                 (session_timeout (session_manager (snd (call_next request tr))))
                                 (float_sub (t_scan e i) (t_create e)))"
      show "map_of (sessions (session_manager (snd (dispatch call_next e request tr))))
                         (generate_session_id e)
                       = Some \<lparr>session_id = generate_session_id e, created_at = t_create e,
                               last_accessed = t_create e,
                               client_info = extract_client_info_sync request,
                               capabilities = JObject [], session_context = []\<rparr>"
        unfolding d2 using k by (simp add: create_for_request_stored)
    }
  }
next
  assume b: "url_path request \<notin> {''/health'', ''/metrics''}
      \<and> \<not> (url_path request = ''/mcp'' \<and> http_method request = ''GET'')
      \<and> (url_path request = ''/mcp'' \<longrightarrow> http_method request \<in> {''GET'', ''POST'', ''DELETE''})
      \<and> (map_of (headers request) ''Mcp-Session-Id'' = Some []
          \<or> (map_of (headers request) ''Mcp-Session-Id'' = None \<and> http_method request = ''GET''
               \<and> \<not> (url_path request = ''/sse''
                      \<and> str_contains
                           (case map_of (headers request) ''Accept'' of None \<Rightarrow> [] | Some a \<Rightarrow> a)
                           ''text/event-stream'')))"
  have i: "\<not> is_initialization_request request" and l: "\<not> is_legacy_sse_request request"
    using b by (auto simp: is_initialization_request_def is_legacy_sse_request_def)
  have w: "without_session_id call_next e request tr
            = (\<lparr>status_code = 400,
              content = JSONContent (JObject [(''jsonrpc'', JString ''2.0''),
                           (''error'', JObject [(''code'', JInt (- 32600)),
                              (''message'', JString ''Missing Mcp-Session-Id header'')])]),
              response_headers = []\<rparr>,
             tr)"
    using b by (auto simp: without_session_id_def JSONResponse_def error_reply_def error_body_def)
  show "dispatch call_next e request tr
          = (\<lparr>status_code = 400,
              content = JSONContent (JObject [(''jsonrpc'', JString ''2.0''),
                           (''error'', JObject [(''code'', JInt (- 32600)),
                              (''message'', JString ''Missing Mcp-Session-Id header'')])]),
              response_headers = []\<rparr>,
             tr)"
    using b i l w by (auto simp: dispatch_def)
qed

lemma tools_list_reply:
  "mcp_post_endpoint runtime0 (request0 tools_list0) transport1
     = (\<lparr>status_code = 200,
         content = JSONContent (JObject [(''jsonrpc'', JString ''2.0''), (''id'', JInt 1),
                      (''result'', JObject [(''tools'', JArray [])])]),
         response_headers = []\<rparr>,
        transport1)"
  by (simp add: request0_def tools_list0_def mcp_post_endpoint_def handle_mcp_request_def
        validate_jsonrpc_request_def dict_get_def dict_get_default_def startswith_def
        process_mcp_request_def handle_tools_list_def runtime0_def result_reply_def
        renders_def JSONResponse_def Let_def)

theorem dispatch_without_session_header_witness:
  "fst (dispatch (mcp_post_endpoint runtime0) env0 (request0 tools_list0) transport1)
     = \<lparr>status_code = 200,
        content = JSONContent (JObject [(''jsonrpc'', JString ''2.0''), (''id'', JInt 1),
                     (''result'', JObject [(''tools'', JArray [])])]),
        response_headers = [(''Mcp-Session-Id'', generate_session_id env0)]\<rparr>
   \<and> map_of (sessions (session_manager
         (snd (dispatch (mcp_post_endpoint runtime0) env0 (request0 tools_list0) transport1))))
         (generate_session_id env0)
       = Some \<lparr>session_id = generate_session_id env0, created_at = Finite 1000 0,
               last_accessed = Finite 1000 0, client_info = [], capabilities = JObject [],
               session_context = []\<rparr>
   \<and> dispatch (mcp_post_endpoint runtime0) env0 empty_header_request transport1
       = (\<lparr>status_code = 400,
           content = JSONContent (JObject [(''jsonrpc'', JString ''2.0''),
                        (''error'', JObject [(''code'', JInt (- 32600)),
                           (''message'', JString ''Missing Mcp-Session-Id header'')])]),
           response_headers = []\<rparr>,
          transport1)"
proof -
  note t = dispatch_without_session_header
             [where request = "request0 tools_list0" and call_next = "mcp_post_endpoint runtime0"
                and e = env0 and tr = transport1]
  have a: "map_of (headers (request0 tools_list0)) ''Mcp-Session-Id'' = None
      \<and> http_method (request0 tools_list0) \<noteq> ''GET''
      \<and> url_path (request0 tools_list0) \<notin> {''/health'', ''/metrics''}
      \<and> (url_path (request0 tools_list0) = ''/mcp''
            \<longrightarrow> http_method (request0 tools_list0) \<in> {''POST'', ''DELETE''})"
    by (simp add: request0_def)
  have s: "status_code (fst (mcp_post_endpoint runtime0 (request0 tools_list0) transport1)) = 200"
    by (simp add: tools_list_reply)
  have k: "distinct (map fst (sessions (session_manager
                (snd (mcp_post_endpoint runtime0 (request0 tools_list0) transport1)))))
         \<and> (\<forall>i. \<not> float_less
                 (session_timeout (session_manager
                    (snd (mcp_post_endpoint runtime0 (request0 tools_list0) transport1))))
                 (float_sub (t_scan env0 i) (t_create env0)))"
    unfolding tools_list_reply by (simp add: transport1_def env0_def round_binary64_def)
  have 1: "fst (dispatch (mcp_post_endpoint runtime0) env0 (request0 tools_list0) transport1)
        = (fst (mcp_post_endpoint runtime0 (request0 tools_list0) transport1))\<lparr>response_headers :=
             AList.update ''Mcp-Session-Id'' (generate_session_id env0)
               (response_headers (fst (mcp_post_endpoint runtime0 (request0 tools_list0) transport1)))\<rparr>"
    using t a s by blast
  have 2: "map_of (sessions (session_manager
         (snd (dispatch (mcp_post_endpoint runtime0) env0 (request0 tools_list0) transport1))))
         (generate_session_id env0)
       = Some \<lparr>session_id = generate_session_id env0, created_at = t_create env0,
               last_accessed = t_create env0,
               client_info = extract_client_info_sync (request0 tools_list0),
               capabilities = JObject [], session_context = []\<rparr>"
    using t a s k by blast
  have b: "url_path empty_header_request \<notin> {''/health'', ''/metrics''}
      \<and> \<not> (url_path empty_header_request = ''/mcp'' \<and> http_method empty_header_request = ''GET'')
      \<and> (url_path empty_header_request = ''/mcp''
            \<longrightarrow> http_method empty_header_request \<in> {''GET'', ''POST'', ''DELETE''})
      \<and> (map_of (headers empty_header_request) ''Mcp-Session-Id'' = Some []
          \<or> (map_of (headers empty_header_request) ''Mcp-Session-Id'' = None
               \<and> http_method empty_header_request = ''GET''
               \<and> \<not> (url_path empty_header_request = ''/sse''
                      \<and> str_contains
                           (case map_of (headers empty_header_request) ''Accept'' of
                              None \<Rightarrow> [] | Some a \<Rightarrow> a)
                           ''text/event-stream'')))"
    by (simp add: empty_header_request_def)
  have 3: "dispatch (mcp_post_endpoint runtime0) env0 empty_header_request transport1
       = (\<lparr>status_code = 400,
           content = JSONContent (JObject [(''jsonrpc'', JString ''2.0''),
                        (''error'', JObject [(''code'', JInt (- 32600)),
                           (''message'', JString ''Missing Mcp-Session-Id header'')])]),
           response_headers = []\<rparr>,
          transport1)"
    using dispatch_without_session_header
            [where request = empty_header_request and call_next = "mcp_post_endpoint runtime0"
               and e = env0 and tr = transport1] b
    by blast
  have x: "extract_client_info_sync (request0 tools_list0) = []" and c: "t_create env0 = Finite 1000 0"
    by (simp_all add: extract_client_info_sync_def request0_def env0_def)
  show ?thesis
    unfolding 1 2 3 by (simp add: tools_list_reply x c)
qed

text \<open>
  Claim C1 as the specification words it fails for a POST to \<open>/mcp\<close> without a session
  header whose method is \<open>tools/list\<close>, not an initialization method: the handler runs, the
  reply is 200 with the tool list, and a session is created and returned in the header.
\<close>

theorem session_less_tools_list_counterexample:
  "map_of (headers (request0 tools_list0)) ''Mcp-Session-Id'' = None
   \<and> fst (dispatch (mcp_post_endpoint runtime0) env0 (request0 tools_list0) transport1)
       = \<lparr>status_code = 200,
          content = JSONContent (JObject [(''jsonrpc'', JString ''2.0''), (''id'', JInt 1),
                       (''result'', JObject [(''tools'', JArray [])])]),
          response_headers = [(''Mcp-Session-Id'', generate_session_id env0)]\<rparr>
   \<and> sessions (session_manager
         (snd (dispatch (mcp_post_endpoint runtime0) env0 (request0 tools_list0) transport1)))
       = [(generate_session_id env0,
           \<lparr>session_id = generate_session_id env0, created_at = Finite 1000 0,
            last_accessed = Finite 1000 0, client_info = [], capabilities = JObject [],
            session_context = []\<rparr>)]"
  by (simp add: dispatch_def request0_def tools_list0_def is_legacy_sse_request_def
        is_initialization_request_def mcp_post_endpoint_def handle_mcp_request_def
        validate_jsonrpc_request_def dict_get_def dict_get_default_def startswith_def
        process_mcp_request_def handle_tools_list_def runtime0_def JSONResponse_def
        result_reply_def renders_def extract_client_info_sync_def
        create_for_request_def create_session_def cleanup_expired_sessions_def
        round_binary64_def transport1_def env0_def Let_def)

subsection \<open>What the handlers leave of the store\<close>

lemma keys_map_entry: "map fst (AList.map_entry k f al) = map fst al"
  by (induction al) auto

lemma keys_modify_session:
  "map fst (sessions (session_manager (modify_session ref f tr)))
     = map fst (sessions (session_manager tr))"
  by (simp add: modify_session_def keys_map_entry)

lemma map_of_modify_session:
  "map_of (sessions (session_manager (modify_session ref f tr))) k
     = (if k = ref then map_option f (map_of (sessions (session_manager tr)) k)
        else map_of (sessions (session_manager tr)) k)"
  by (simp add: modify_session_def map_of_map_entry split: option.splits)

lemma session_manager_send [simp]:
  "session_manager (send_sse_message tr sid m) = session_manager tr"
  by (simp add: send_sse_message_def split: option.splits)

lemma dict_update_error_independent: "fst (dict_update d other) = fst (dict_update [] other)"
proof -
  have "fst (update_from_pairs d xs) = fst (update_from_pairs d' xs)" for d d' xs
    by (induction xs arbitrary: d d') (auto split: sum.splits)
  then show ?thesis
    by (auto simp: dict_update_def split: json.splits)
qed

lemma handle_initialize_keys:
  "map fst (sessions (session_manager (snd (handle_initialize params request_id session tr))))
     = map fst (sessions (session_manager tr))"
  by (simp add: handle_initialize_def Let_def keys_modify_session
           split: json.splits option.splits)

lemma handle_tools_call_sessions:
  "session_manager (snd (handle_tools_call rt params request_id session tr)) = session_manager tr"
  by (simp add: handle_tools_call_def Let_def split: json.splits sum.splits bool.splits option.splits)

lemma handle_logging_set_level_sessions:
  "session_manager (snd (handle_logging_set_level rt params request_id tr)) = session_manager tr"
  by (simp add: handle_logging_set_level_def Let_def split: json.splits)

lemma snd_replying [simp]: "snd (replying r) = snd r"
  by (simp add: replying_def)

lemma process_mcp_request_keys:
  "map fst (sessions (session_manager (snd (process_mcp_request rt json_data session tr))))
     = map fst (sessions (session_manager tr))"
  by (simp add: process_mcp_request_def Let_def handle_initialize_keys handle_tools_call_sessions
        handle_logging_set_level_sessions split: json.splits)

lemma handle_mcp_request_keys:
  "map fst (sessions (session_manager (snd (handle_mcp_request rt request tr))))
     = map fst (sessions (session_manager tr))"
proof -
  have "map fst (sessions (session_manager (snd (process_mcp_request rt j (mcp_session request) tr))))
     = map fst (sessions (session_manager tr))" for j
    by (rule process_mcp_request_keys)
  moreover have "snd (handle_mcp_request rt request tr) = tr
      \<or> (\<exists>j. snd (handle_mcp_request rt request tr)
                 = snd (process_mcp_request rt j (mcp_session request) tr))"
    by (auto simp: handle_mcp_request_def
             split: payload.splits option.splits prod.splits sum.splits if_splits)
       (metis snd_conv)+
  ultimately show ?thesis
    by auto
qed


lemma snd_handle_mcp_request:
  assumes "body request = JSON j" and "validate_jsonrpc_request j = None"
  shows "snd (handle_mcp_request rt request tr) = snd (process_mcp_request rt j (mcp_session request) tr)"
  using assms
  by (simp add: handle_mcp_request_def split: prod.splits sum.splits option.splits)


lemma handle_initialize_bound_state:
  assumes "dict_get_default ps ''clientInfo'' (JObject []) = JObject ci"
  shows "snd (handle_initialize (JObject ps) request_id (Some ref) tr)
       = modify_session ref
           (\<lambda>s. s\<lparr>capabilities := dict_get_default ps ''capabilities'' (JObject [])\<rparr>)
           (modify_session ref
              (\<lambda>s. s\<lparr>client_info := fold (\<lambda>(k, v). AList.update (KStr k) v) ci (Session.client_info s)\<rparr>)
              tr)"
  using assms
  by (simp add: handle_initialize_def Let_def dict_update_def split: json.splits)

lemma dispatch_bound:
  assumes "map_of (headers request) ''Mcp-Session-Id'' = Some sid" and "sid \<noteq> []"
      and "http_method request = ''POST''" and "url_path request = ''/mcp''"
      and "map_of (sessions (session_manager tr)) sid = Some s"
      and "\<not> is_expired s (session_timeout (session_manager tr)) (t_check e)"
  shows "dispatch call_next e request tr
       = (fst (call_next (request\<lparr>mcp_session := Some sid\<rparr>)
                 (tr\<lparr>session_manager := (session_manager tr)\<lparr>sessions :=
                       AList.update sid (s\<lparr>last_accessed := t_touch e\<rparr>)
                         (sessions (session_manager tr))\<rparr>\<rparr>)),
          modify_session sid (\<lambda>s. update_access_time s (t_after e))
            (snd (call_next (request\<lparr>mcp_session := Some sid\<rparr>)
                 (tr\<lparr>session_manager := (session_manager tr)\<lparr>sessions :=
                       AList.update sid (s\<lparr>last_accessed := t_touch e\<rparr>)
                         (sessions (session_manager tr))\<rparr>\<rparr>))))"
  using assms
  by (simp add: dispatch_def is_legacy_sse_request_def is_initialization_request_def
        with_session_id_def get_session_def update_access_time_def Let_def)

lemma keys_update_present:
  "map_of al k = Some v \<Longrightarrow> map fst (AList.update k v' al) = map fst al"
  by (simp add: AList.update_keys map_of_Some_key)

lemma initialize_fields_facts:
  "validate_jsonrpc_request (JObject initialize_fields) = None"
  "dict_get initialize_fields ''method'' = JString ''initialize''"
  "dict_get_default initialize_fields ''params'' (JObject [])
     = JObject [(''clientInfo'', JObject [(''name'', JString ''X'')])]"
  "dict_get_default [(''clientInfo'', JObject [(''name'', JString ''X'')])] ''clientInfo'' (JObject [])
     = JObject [(''name'', JString ''X'')]"
  "dict_get_default [(''clientInfo'', JObject [(''name'', JString ''X'')])] ''capabilities'' (JObject [])
     = JObject []"
  by (simp_all add: initialize_fields_def validate_jsonrpc_request_def dict_get_def
        dict_get_default_def startswith_def)

lemma bound_request_facts:
  "map_of (headers bound_request) ''Mcp-Session-Id'' = Some ''abc''"
  "http_method bound_request = ''POST''" "url_path bound_request = ''/mcp''"
  "body bound_request = JSON (JObject initialize_fields)"
  "map_of (sessions (session_manager transport2)) ''abc'' = Some session0"
  "\<not> is_expired session0 (session_timeout (session_manager transport2)) (t_check env0)"
  by (simp_all add: bound_request_def transport2_def manager0_def session0_def env0_def
        is_expired_def round_binary64_def)

subsection \<open>Initialization\<close>



lemma bound_initialize_session:
  assumes "map_of (headers request) ''Mcp-Session-Id'' = Some sid" and "sid \<noteq> []"
      and "http_method request = ''POST''" and "url_path request = ''/mcp''"
      and "map_of (sessions (session_manager tr)) sid = Some s"
      and "\<not> is_expired s (session_timeout (session_manager tr)) (t_check e)"
      and "body request = JSON (JObject d)"
      and "validate_jsonrpc_request (JObject d) = None"
      and "dict_get d ''method'' = JString ''initialize''"
      and "dict_get_default d ''params'' (JObject []) = JObject ps"
      and "dict_get_default ps ''clientInfo'' (JObject []) = JObject ci"
  shows "map_of (sessions (session_manager (snd (dispatch (mcp_post_endpoint rt) e request tr)))) sid
       = Some (s\<lparr>last_accessed := t_after e,
                 client_info := fold (\<lambda>(k, v). AList.update (KStr k) v) ci (Session.client_info s),
                 capabilities := dict_get_default ps ''capabilities'' (JObject [])\<rparr>)"
proof -
  have b: "body (request\<lparr>mcp_session := Some sid\<rparr>) = JSON (JObject d)"
    using assms(7) by simp
  have p: "snd (process_mcp_request rt (JObject d) (Some sid) tr')
         = snd (handle_initialize (JObject ps) (dict_get d ''id'') (Some sid) tr')" for tr'
    using assms(9,10) by (simp add: process_mcp_request_def Let_def)
  show ?thesis
    unfolding dispatch_bound [OF assms(1-6)] mcp_post_endpoint_def
      snd_handle_mcp_request [OF b assms(8)]
    by (simp add: p handle_initialize_bound_state [OF assms(11)] map_of_modify_session
          update_access_time_def AList.update_conv')
qed


text \<open>
  Claim C5. An \<open>initialize\<close> request posted to \<open>/mcp\<close> with the id of a live session in its
  header leaves the number of stored sessions, and the very list of stored ids, as they
  were: no session is created. When the envelope is accepted and its \<open>clientInfo\<close> is an
  object, the record stored under that id afterwards is the existing record with the
  supplied metadata merged into its \<open>client_info\<close>, the declared capabilities stored, and
  the access time refreshed.
\<close>

theorem reinitialize_keeps_session_count:
  assumes "map_of (headers request) ''Mcp-Session-Id'' = Some sid" and "sid \<noteq> []"
      and "http_method request = ''POST''" and "url_path request = ''/mcp''"
      and "map_of (sessions (session_manager tr)) sid = Some s"
      and "\<not> is_expired s (session_timeout (session_manager tr)) (t_check e)"
      and "body request = JSON (JObject d)"
      and "dict_get d ''method'' = JString ''initialize''"
  shows "get_session_count (session_manager (snd (dispatch (mcp_post_endpoint rt) e request tr)))
           = get_session_count (session_manager tr)
       \<and> map fst (sessions (session_manager (snd (dispatch (mcp_post_endpoint rt) e request tr))))
           = map fst (sessions (session_manager tr))
       \<and> (validate_jsonrpc_request (JObject d) = None
            \<and> dict_get_default d ''params'' (JObject []) = JObject ps
            \<and> dict_get_default ps ''clientInfo'' (JObject []) = JObject ci
          \<longrightarrow> map_of (sessions (session_manager
                        (snd (dispatch (mcp_post_endpoint rt) e request tr)))) sid
                = Some (s\<lparr>last_accessed := t_after e,
                          client_info := fold (\<lambda>(k, v). AList.update (KStr k) v) ci
                                           (Session.client_info s),
                          capabilities := dict_get_default ps ''capabilities'' (JObject [])\<rparr>))"
proof -
  have k: "map fst (sessions (session_manager (snd (dispatch (mcp_post_endpoint rt) e request tr))))
           = map fst (sessions (session_manager tr))"
    unfolding dispatch_bound [OF assms(1-6)]
    by (simp add: keys_modify_session mcp_post_endpoint_def handle_mcp_request_keys
          keys_update_present [OF assms(5)])
  have "length (sessions (session_manager (snd (dispatch (mcp_post_endpoint rt) e request tr))))
           = length (sessions (session_manager tr))"
    using k by (metis length_map)
  then have c: "get_session_count (session_manager (snd (dispatch (mcp_post_endpoint rt) e request tr)))
           = get_session_count (session_manager tr)"
    by (simp add: get_session_count_def)
  have m: "map_of (sessions (session_manager
                        (snd (dispatch (mcp_post_endpoint rt) e request tr)))) sid
                = Some (s\<lparr>last_accessed := t_after e,
                          client_info := fold (\<lambda>(k, v). AList.update (KStr k) v) ci
                                           (Session.client_info s),
                          capabilities := dict_get_default ps ''capabilities'' (JObject [])\<rparr>)"
    if "validate_jsonrpc_request (JObject d) = None"
      and "dict_get_default d ''params'' (JObject []) = JObject ps"
      and "dict_get_default ps ''clientInfo'' (JObject []) = JObject ci"
    using bound_initialize_session [OF assms(1-7) that(1) assms(8) that(2,3)] .
  show ?thesis
    using c k m by blast
qed

theorem reinitialize_keeps_session_count_witness:
  "get_session_count (session_manager transport2) = 1
   \<and> get_session_count (session_manager
         (snd (dispatch (mcp_post_endpoint runtime0) env0 bound_request transport2))) = 1
   \<and> map_of (sessions (session_manager
         (snd (dispatch (mcp_post_endpoint runtime0) env0 bound_request transport2)))) ''abc''
       = Some (session0\<lparr>last_accessed := Finite 1000 0,
                        client_info := [(KStr ''name'', JString ''X'')],
                        capabilities := JObject []\<rparr>)"
proof -
  have c: "get_session_count (session_manager transport2) = 1"
    by (simp add: get_session_count_def transport2_def manager0_def)
  have n: "''abc'' \<noteq> []"
    by simp
  have i: "Session.client_info session0 = []" and t: "t_after env0 = Finite 1000 0"
    by (simp_all add: session0_def env0_def)
  note r = reinitialize_keeps_session_count
            [OF bound_request_facts(1) n bound_request_facts(2,3,5,6,4) initialize_fields_facts(2),
             where rt = runtime0 and ps = "[(''clientInfo'', JObject [(''name'', JString ''X'')])]"
               and ci = "[(''name'', JString ''X'')]"]
  show ?thesis
    using r c initialize_fields_facts(1,3,4,5) i t by simp
qed

text \<open>
  A reply that does not render is answered with the internal error: an \<open>initialize\<close> request
  without a session header whose identifier is the float \<open>1e400\<close>, that is infinity, gets
  500, and no session is created.
\<close>

lemma initialize_infinite_id:
  "dispatch (mcp_post_endpoint runtime0) env0 (request0 initialize_inf_id) transport1
     = (\<lparr>status_code = 500,
         content = JSONContent (JObject [(''jsonrpc'', JString ''2.0''),
                      (''error'', JObject [(''code'', JInt (- 32603)),
                                           (''message'', JString ''Internal server error'')])]),
         response_headers = []\<rparr>,
        transport1)"
  by (simp add: dispatch_def request0_def initialize_inf_id_def is_legacy_sse_request_def
        is_initialization_request_def mcp_post_endpoint_def handle_mcp_request_def
        validate_jsonrpc_request_def dict_get_def dict_get_default_def startswith_def
        process_mcp_request_def handle_initialize_def replying_def JSONResponse_def
        initialize_result_def result_reply_def server_capabilities_def renders_def
        internal_server_error_def error_reply_def error_body_def Let_def)





end
